theory Spec2Isabelle
  imports Complex_Main "HOL-Library.Sublist" "HOL-Library.Log_Nat"
begin

section \<open>git-wt: worktree classification, branch resolution and the removal session\<close>

text \<open>
  A shallow embedding of the Go packages \<open>git\<close> (src/unnamed/part_002: running git,
  the worktree record, listing and removing worktrees), \<open>tui\<close>
  (src/internal/tui/selector.go: the two interactive sessions and the tag assembly) and
  \<open>cmd\<close> (src/cmd/root.go: the branch resolver of \<open>switch\<close>; src/cmd/init.go: the
  candidate filter of \<open>clean\<close>).

  Go strings are byte sequences and are modelled as \<open>string\<close> (a list of 8-bit
  characters). Go's \<open>int\<close> is modelled as \<open>int\<close>: the embedded code only
  compares, formats, increments below a list length and decrements above zero, so no
  operation can leave the 64-bit range.

  What the code obtains from outside the repository (the Go standard library where it
  depends on Unicode tables, the operating system or floating point, the git binary, the
  terminal styling library) is a field of the record \<open>platform\<close>; the world those
  operations act on is the type parameter \<open>'w\<close>.
\<close>

subsection \<open>Byte-level string helpers of the Go standard library\<close>

text \<open>\<open>strings.HasPrefix(s, p)\<close>: \<open>s\<close> begins with \<open>p\<close>.\<close>

definition HasPrefix :: "string \<Rightarrow> string \<Rightarrow> bool" where
  "HasPrefix s p = prefix p s"

text \<open>\<open>strings.Contains(s, sub)\<close>: \<open>sub\<close> occurs in \<open>s\<close> as a contiguous block.\<close>

definition Contains :: "string \<Rightarrow> string \<Rightarrow> bool" where
  "Contains s sub = sublist sub s"

text \<open>\<open>strings.TrimPrefix(s, p)\<close>: \<open>s\<close> without the leading \<open>p\<close>, or \<open>s\<close> itself.\<close>

definition TrimPrefix :: "string \<Rightarrow> string \<Rightarrow> string" where
  "TrimPrefix s p = (if HasPrefix s p then drop (length p) s else s)"

text \<open>\<open>strings.Join(parts, sep)\<close>.\<close>

fun Join :: "string list \<Rightarrow> string \<Rightarrow> string" where
  "Join [] sep = []"
| "Join [x] sep = x"
| "Join (x # y # ys) sep = x @ sep @ Join (y # ys) sep"

text \<open>The verb \<open>%d\<close> of \<open>fmt.Sprintf\<close>: decimal digits, with a minus sign below zero.\<close>

fun digitsNat :: "nat \<Rightarrow> string" where
  "digitsNat n =
     (if n < 10 then [''0123456789'' ! n]
      else digitsNat (n div 10) @ [''0123456789'' ! (n mod 10)])"

declare digitsNat.simps [simp del]

definition fmtInt :: "int \<Rightarrow> string" where
  "fmtInt i = (if i < 0 then CHR ''-'' # digitsNat (nat (- i)) else digitsNat (nat i))"

subsection \<open>The worktree record (package git, src/unnamed/part_002)\<close>

text \<open>
  An instant of \<open>time.Time\<close> is its distance from the Unix epoch in nanoseconds. The
  zero value of \<open>time.Time\<close> is midnight UTC of 1 January of year 1, which lies
  62135596800 seconds before the epoch.
\<close>

type_synonym gotime = int

definition zeroTime :: gotime where
  "zeroTime = - 62135596800 * 1000000000"

definition IsZero :: "gotime \<Rightarrow> bool" where
  "IsZero t = (t = zeroTime)"

record Worktree =
  Path :: string
  Head :: string
  Branch :: string
  IsBare :: bool
  IsDetached :: bool
  IsCurrent :: bool
  Modified :: int
  Untracked :: int
  Ahead :: int
  Behind :: int
  IsMerged :: bool
  LastCommit :: gotime

text \<open>The Go zero value \<open>Worktree{}\<close>.\<close>

definition zeroWorktree :: Worktree where
  "zeroWorktree =
     \<lparr>Path = [], Head = [], Branch = [], IsBare = False, IsDetached = False,
      IsCurrent = False, Modified = 0, Untracked = 0, Ahead = 0, Behind = 0,
      IsMerged = False, LastCommit = zeroTime\<rparr>"

definition IsClean :: "Worktree \<Rightarrow> bool" where
  "IsClean w = (Modified w = 0 \<and> Untracked w = 0)"

definition BranchShort :: "Worktree \<Rightarrow> string" where
  "BranchShort w = TrimPrefix (Branch w) ''refs/heads/''"

definition StatusText :: "Worktree \<Rightarrow> string" where
  "StatusText w =
     (if IsBare w then ''bare''
      else if IsClean w then ''clean''
      else
        (let parts = [];
             parts = (if Modified w > 0
                      then parts @ [fmtInt (Modified w) @ '' modified''] else parts);
             parts = (if Untracked w > 0
                      then parts @ [fmtInt (Untracked w) @ '' untracked''] else parts)
         in Join parts '', ''))"

text \<open>
  The arrows of \<open>SyncText\<close> are the UTF-8 encodings of U+2193 (down) and U+2191 (up).
\<close>

definition arrowDown :: string where
  "arrowDown = [CHR 0xE2, CHR 0x86, CHR 0x93]"

definition arrowUp :: string where
  "arrowUp = [CHR 0xE2, CHR 0x86, CHR 0x91]"

definition SyncText :: "Worktree \<Rightarrow> string" where
  "SyncText w =
     (if Ahead w = 0 \<and> Behind w = 0 then ''-''
      else
        (let parts = [];
             parts = (if Behind w > 0 then parts @ [arrowDown @ fmtInt (Behind w)] else parts);
             parts = (if Ahead w > 0 then parts @ [arrowUp @ fmtInt (Ahead w)] else parts)
         in Join parts '' ''))"

subsection \<open>What the code takes from outside the repository\<close>

text \<open>
  The outcome of \<open>cmd.Run()\<close> on a git child process: the text of the returned error
  (\<open>None\<close> for \<open>nil\<close>) and what the process wrote to its two output streams.
\<close>

record cmd_result =
  run_err :: "string option"
  out :: string
  err_out :: string

text \<open>The package-level styles of package tui that \<open>BuildTags\<close> renders with.\<close>

datatype style = currentStyle | dirtyStyle | mergedStyle | dimStyle | staleStyle

text \<open>
  \<^item> \<open>exec_git w dir args\<close>: \<open>exec.Command("git", args...)\<close> run in \<open>dir\<close>
    (the process's own directory when \<open>dir\<close> is empty), with the world it leaves behind;
  \<^item> \<open>getwd\<close>: \<open>os.Getwd()\<close>, \<open>None\<close> when it fails;
  \<^item> \<open>absPath\<close>: \<open>filepath.Abs\<close> with its error dropped, as every call site does;
  \<^item> \<open>pathSeparator\<close>: \<open>os.PathSeparator\<close>;
  \<^item> \<open>TrimSpace\<close>, \<open>ToLower\<close>, \<open>EqualFold\<close>: the functions of package \<open>strings\<close>
    that consult the Unicode tables;
  \<^item> \<open>scanLines\<close>: the lines a \<open>bufio.Scanner\<close> yields for a string;
  \<^item> \<open>Render st s\<close>: \<open>st.Render(s)\<close> of the styling library;
  \<^item> \<open>daysOfDuration d\<close>: \<open>int(d.Hours() / 24)\<close> for a duration of \<open>d\<close> nanoseconds,
    a computation in float64 followed by a conversion to int; Go computes this value as
    \<open>float64Days d\<close>, defined below.
\<close>

record 'w platform =
  exec_git :: "'w \<Rightarrow> string \<Rightarrow> string list \<Rightarrow> 'w \<times> cmd_result"
  getwd :: "'w \<Rightarrow> string option"
  absPath :: "'w \<Rightarrow> string \<Rightarrow> string"
  pathSeparator :: char
  TrimSpace :: "string \<Rightarrow> string"
  ToLower :: "string \<Rightarrow> string"
  EqualFold :: "string \<Rightarrow> string \<Rightarrow> bool"
  scanLines :: "string \<Rightarrow> string list"
  Render :: "style \<Rightarrow> string \<Rightarrow> string"
  daysOfDuration :: "int \<Rightarrow> int"

subsection \<open>Inactivity (package git, src/unnamed/part_002)\<close>

text \<open>
  \<open>time.Since(t)\<close> is \<open>time.Now().Sub(t)\<close>; the clock reading \<open>now\<close> of the call is
  an argument of the model. \<open>Sub\<close> saturates at the ends of the int64 range of
  \<open>time.Duration\<close>.
\<close>

definition maxDuration :: int where
  "maxDuration = 2 ^ 63 - 1"

definition minDuration :: int where
  "minDuration = - (2 ^ 63)"

definition Since :: "gotime \<Rightarrow> gotime \<Rightarrow> int" where
  "Since now t =
     (let d = now - t
      in if d > maxDuration then maxDuration else if d < minDuration then minDuration else d)"

definition InactiveDays :: "'w platform \<Rightarrow> gotime \<Rightarrow> Worktree \<Rightarrow> int" where
  "InactiveDays sys now w =
     (if IsZero (LastCommit w) then 0 else daysOfDuration sys (Since now (LastCommit w)))"

subsection \<open>The day count in binary64 arithmetic\<close>

text \<open>
  Go's \<open>float64\<close> is the binary64 format of IEEE 754, and each arithmetic operation
  and each conversion from an integer returns the exact result rounded to the nearest
  representable number, a tie going to the neighbour with an even significand. The
  numbers below are far from the overflow threshold, so a finite real number stands for
  a \<open>float64\<close> value.

  \<open>roundHalfEven q\<close> is the integer nearest to \<open>q\<close>, the even one of the two when
  \<open>q\<close> lies half-way.
\<close>

definition roundHalfEven :: "real \<Rightarrow> int" where
  "roundHalfEven q =
     (let f = \<lfloor>q\<rfloor>; r = q - of_int f
      in if r < 1 / 2 then f else if r > 1 / 2 then f + 1 else if even f then f else f + 1)"

text \<open>
  \<open>binade x\<close> is the exponent \<open>e\<close> with \<open>2 powi e \<le> \<bar>x\<bar> < 2 powi (e + 1)\<close>, for
  \<open>x\<close> other than 0. A binary64 number has 53 significant bits and its exponent is at
  least \<open>- 1022\<close>, so the representable numbers around \<open>x\<close> are the multiples of
  \<open>2 powi (ulpExp x)\<close>, and \<open>round64 x\<close> is the nearest of them.
\<close>

definition binade :: "real \<Rightarrow> int" where
  "binade x =
     (let a = \<bar>x\<bar>
      in if a \<ge> 1 then bitlen \<lfloor>a\<rfloor> - 1 else - bitlen (\<lceil>1 / a\<rceil> - 1))"

definition ulpExp :: "real \<Rightarrow> int" where
  "ulpExp x = max (binade x) (- 1022) - 52"

definition round64 :: "real \<Rightarrow> real" where
  "round64 x =
     (if x = 0 then 0
      else (let u = 2 powi (ulpExp x)
            in of_int (roundHalfEven (x / u)) * u))"

text \<open>
  Go's integer division \<open>a / b\<close> truncates towards zero, and \<open>a % b\<close> is what it
  leaves.
\<close>

definition quoT :: "int \<Rightarrow> int \<Rightarrow> int" where
  "quoT a b = sgn a * sgn b * (\<bar>a\<bar> div \<bar>b\<bar>)"

definition remT :: "int \<Rightarrow> int \<Rightarrow> int" where
  "remT a b = a - b * quoT a b"

text \<open>\<open>time.Hour\<close>, and a day, in nanoseconds.\<close>

definition nsPerHour :: int where
  "nsPerHour = 60 * 60 * 1000000000"

definition nsPerDay :: int where
  "nsPerDay = 24 * 3600 * 1000000000"

text \<open>The conversion \<open>float64(n)\<close> of an integer.\<close>

definition float64 :: "int \<Rightarrow> real" where
  "float64 n = round64 (of_int n)"

text \<open>
  \<open>time.Duration.Hours\<close> of the standard library:
  \<open>hour := d / Hour; nsec := d % Hour; return float64(hour) + float64(nsec)/(60*60*1e9)\<close>.
\<close>

definition Hours :: "int \<Rightarrow> real" where
  "Hours d =
     (let hour = quoT d nsPerHour;
          nsec = remT d nsPerHour
      in round64 (float64 hour + round64 (float64 nsec / (60 * 60 * 1000000000))))"

text \<open>The conversion \<open>int(t)\<close> of a \<open>float64\<close> drops the fraction.\<close>

definition truncInt :: "real \<Rightarrow> int" where
  "truncInt t = (if t \<ge> 0 then \<lfloor>t\<rfloor> else \<lceil>t\<rceil>)"

text \<open>
  \<open>int(d.Hours() / 24)\<close> as Go computes it; a platform that runs Go's arithmetic has
  \<open>daysOfDuration = float64Days\<close>.
\<close>

definition float64Days :: "int \<Rightarrow> int" where
  "float64Days d = truncInt (round64 (Hours d / 24))"

subsection \<open>Tag assembly (package tui, src/internal/tui/selector.go)\<close>

definition BuildTags :: "'w platform \<Rightarrow> gotime \<Rightarrow> Worktree \<Rightarrow> string" where
  "BuildTags sys now wt =
     (let tags = [];
          tags = (if IsCurrent wt then tags @ [Render sys currentStyle ''current''] else tags);
          tags = (if \<not> IsClean wt then tags @ [Render sys dirtyStyle (StatusText wt)] else tags);
          tags = (if IsMerged wt then tags @ [Render sys mergedStyle ''merged''] else tags);
          sync = SyncText wt;
          tags = (if sync \<noteq> ''-'' then tags @ [Render sys dimStyle sync] else tags);
          days = InactiveDays sys now wt;
          tags = (if days > 30
                  then tags @ [Render sys staleStyle (fmtInt days @ ''d stale'')] else tags)
      in if length tags = 0 then []
         else Render sys dimStyle ''['' @ Join tags (Render sys dimStyle '', '')
              @ Render sys dimStyle '']'')"

text \<open>
  The two parts of \<open>BuildTags\<close> around its call of \<open>InactiveDays\<close>: the tags it has
  collected before the call, and its last two statements, which join the finished slice.
\<close>

definition tagsBeforeStale :: "'w platform \<Rightarrow> Worktree \<Rightarrow> string list" where
  "tagsBeforeStale sys wt =
     (let tags = [];
          tags = (if IsCurrent wt then tags @ [Render sys currentStyle ''current''] else tags);
          tags = (if \<not> IsClean wt then tags @ [Render sys dirtyStyle (StatusText wt)] else tags);
          tags = (if IsMerged wt then tags @ [Render sys mergedStyle ''merged''] else tags);
          sync = SyncText wt;
          tags = (if sync \<noteq> ''-'' then tags @ [Render sys dimStyle sync] else tags)
      in tags)"

definition joinTags :: "'w platform \<Rightarrow> string list \<Rightarrow> string" where
  "joinTags sys tags =
     (if length tags = 0 then []
      else Render sys dimStyle ''['' @ Join tags (Render sys dimStyle '', '')
           @ Render sys dimStyle '']'')"

subsection \<open>The branch resolver (package cmd, src/cmd/root.go)\<close>

text \<open>The first loop of \<open>matchWorktrees\<close>: it returns at the first hit.\<close>

fun exactLoop :: "'w platform \<Rightarrow> string \<Rightarrow> Worktree list \<Rightarrow> Worktree option" where
  "exactLoop sys query [] = None"
| "exactLoop sys query (wt # wts) =
     (if EqualFold sys (BranchShort wt) query then Some wt else exactLoop sys query wts)"

text \<open>The second and third loops append every hit to the slice they build.\<close>

fun prefixLoop :: "'w platform \<Rightarrow> string \<Rightarrow> Worktree list \<Rightarrow> Worktree list \<Rightarrow> Worktree list" where
  "prefixLoop sys queryLower [] prefixMatches = prefixMatches"
| "prefixLoop sys queryLower (wt # wts) prefixMatches =
     prefixLoop sys queryLower wts
       (if HasPrefix (ToLower sys (BranchShort wt)) queryLower
        then prefixMatches @ [wt] else prefixMatches)"

fun substringLoop :: "'w platform \<Rightarrow> string \<Rightarrow> Worktree list \<Rightarrow> Worktree list \<Rightarrow> Worktree list" where
  "substringLoop sys queryLower [] substringMatches = substringMatches"
| "substringLoop sys queryLower (wt # wts) substringMatches =
     substringLoop sys queryLower wts
       (if Contains (ToLower sys (BranchShort wt)) queryLower
        then substringMatches @ [wt] else substringMatches)"

definition matchWorktrees :: "'w platform \<Rightarrow> Worktree list \<Rightarrow> string \<Rightarrow> Worktree list" where
  "matchWorktrees sys worktrees query =
     (let queryLower = ToLower sys query
      in case exactLoop sys query worktrees of
           Some wt \<Rightarrow> [wt]
         | None \<Rightarrow>
             (let prefixMatches = prefixLoop sys queryLower worktrees []
              in if length prefixMatches > 0 then prefixMatches
                 else substringLoop sys queryLower worktrees []))"

subsection \<open>The candidate filter of the clean command (package cmd, src/cmd/init.go)\<close>

text \<open>
  The flags \<open>--merged\<close> and \<open>--stale N\<close> as \<open>runClean\<close> reads them, and the threshold
  it derives from them and from the configured \<open>cleanup.stale_days\<close>.
\<close>

record cleanFlags =
  cleanMerged :: bool
  cleanStaleDays :: int

definition hasExplicitFlags :: "cleanFlags \<Rightarrow> bool" where
  "hasExplicitFlags fl = (cleanMerged fl \<or> cleanStaleDays fl > 0)"

definition effectiveStaleDays :: "cleanFlags \<Rightarrow> int \<Rightarrow> int" where
  "effectiveStaleDays fl cfgStaleDays =
     (let staleDays = cleanStaleDays fl
      in if \<not> hasExplicitFlags fl then cfgStaleDays else staleDays)"

text \<open>
  The staleness test of the loop body, in either branch of \<open>hasExplicitFlags\<close>;
  \<open>now\<close> is the clock reading of its call of \<open>InactiveDays\<close>.
\<close>

definition cleanStaleTest :: "'w platform \<Rightarrow> gotime \<Rightarrow> cleanFlags \<Rightarrow> int \<Rightarrow> Worktree \<Rightarrow> bool" where
  "cleanStaleTest sys now fl cfgStaleDays wt =
     (let staleDays = effectiveStaleDays fl cfgStaleDays
      in if hasExplicitFlags fl
         then cleanStaleDays fl > 0 \<and> InactiveDays sys now wt \<ge> staleDays
         else staleDays > 0 \<and> InactiveDays sys now wt \<ge> staleDays)"

text \<open>
  The reasons the loop body collects for one worktree. \<open>now\<close> is the clock reading
  of the call of \<open>InactiveDays\<close> in the test and \<open>now'\<close> that of the second call,
  the one that formats the reason.
\<close>

definition cleanReasons ::
  "'w platform \<Rightarrow> gotime \<Rightarrow> gotime \<Rightarrow> cleanFlags \<Rightarrow> int \<Rightarrow> Worktree \<Rightarrow> string list" where
  "cleanReasons sys now now' fl cfgStaleDays wt =
     (let staleDays = effectiveStaleDays fl cfgStaleDays;
          reasons = []
      in if hasExplicitFlags fl
         then
           (let reasons = (if cleanMerged fl \<and> IsMerged wt
                           then reasons @ [''merged''] else reasons);
                reasons = (if cleanStaleDays fl > 0 \<and> InactiveDays sys now wt \<ge> staleDays
                           then reasons @ [fmtInt (InactiveDays sys now' wt) @ ''d inactive'']
                           else reasons)
            in reasons)
         else
           (let reasons = (if IsMerged wt then reasons @ [''merged''] else reasons);
                reasons = (if staleDays > 0 \<and> InactiveDays sys now wt \<ge> staleDays
                           then reasons @ [fmtInt (InactiveDays sys now' wt) @ ''d inactive'']
                           else reasons)
            in reasons))"

text \<open>One pass of the filter loop: the candidate a worktree yields, if any.\<close>

definition cleanCandidate ::
  "'w platform \<Rightarrow> gotime \<Rightarrow> gotime \<Rightarrow> cleanFlags \<Rightarrow> int \<Rightarrow> string \<Rightarrow> Worktree
     \<Rightarrow> (Worktree \<times> string) option" where
  "cleanCandidate sys now now' fl cfgStaleDays defaultBranch wt =
     (if IsBare wt \<or> IsCurrent wt then None
      else if BranchShort wt = defaultBranch then None
      else
        (let reasons = cleanReasons sys now now' fl cfgStaleDays wt
         in if length reasons > 0 then Some (wt, Join reasons '', '') else None))"

text \<open>
  The staleness rule in the words of the specification: a record is stale under a
  threshold when its inactive days strictly exceed it.
\<close>

definition isStale_spec :: "'w platform \<Rightarrow> gotime \<Rightarrow> Worktree \<Rightarrow> int \<Rightarrow> bool" where
  "isStale_spec sys now wt thresholdDays = (InactiveDays sys now wt > thresholdDays)"

text \<open>
  The inactive days in the words of the specification: the time from the last activity
  to \<open>now\<close> divided by one day and rounded down, and 0 when the last activity is unset.
\<close>

definition inactiveDays_spec :: "gotime \<Rightarrow> Worktree \<Rightarrow> int" where
  "inactiveDays_spec now wt =
     (if IsZero (LastCommit wt) then 0
      else \<lfloor>real_of_int (now - LastCommit wt) / real_of_int nsPerDay\<rfloor>)"

subsection \<open>Running git (package git, src/unnamed/part_002)\<close>

text \<open>
  A Go \<open>error\<close> is modelled by its message. \<open>run\<close> yields \<open>Inl\<close> of the message of
  the error it builds, or \<open>Inr\<close> of the trimmed standard output.
\<close>

definition run :: "'w platform \<Rightarrow> 'w \<Rightarrow> string \<Rightarrow> string list \<Rightarrow> 'w \<times> (string + string)" where
  "run sys w dir args =
     (let (w', r) = exec_git sys w dir args
      in case run_err r of
           Some e \<Rightarrow>
             (let msg = TrimSpace sys (err_out r);
                  msg = (if msg = [] then e else msg)
              in (w', Inl (''git '' @ Join args '' '' @ '': '' @ msg)))
         | None \<Rightarrow> (w', Inr (TrimSpace sys (out r))))"

subsection \<open>Listing, removing and pruning worktrees (package git, src/unnamed/part_002)\<close>

text \<open>
  One pass of the scanner loop of \<open>ListWorktrees\<close> over the slice built so far and
  the record under construction (\<open>None\<close> for the nil pointer).
\<close>

definition parseLine ::
  "Worktree list \<times> Worktree option \<Rightarrow> string \<Rightarrow> Worktree list \<times> Worktree option" where
  "parseLine st line =
     (let (worktrees, current) = st
      in if HasPrefix line ''worktree '' then
           ((case current of Some c \<Rightarrow> worktrees @ [c] | None \<Rightarrow> worktrees),
            Some (zeroWorktree\<lparr>Path := TrimPrefix line ''worktree ''\<rparr>))
         else if HasPrefix line ''HEAD '' then
           (worktrees, map_option (\<lambda>c. c\<lparr>Head := TrimPrefix line ''HEAD ''\<rparr>) current)
         else if HasPrefix line ''branch '' then
           (worktrees, map_option (\<lambda>c. c\<lparr>Branch := TrimPrefix line ''branch ''\<rparr>) current)
         else if line = ''bare'' then
           (worktrees, map_option (\<lambda>c. c\<lparr>IsBare := True\<rparr>) current)
         else if line = ''detached'' then
           (worktrees, map_option (\<lambda>c. c\<lparr>IsDetached := True\<rparr>) current)
         else (worktrees, current))"

definition parsePorcelain :: "'w platform \<Rightarrow> string \<Rightarrow> Worktree list" where
  "parsePorcelain sys outp =
     (let (worktrees, current) = foldl parseLine ([], None) (scanLines sys outp)
      in case current of Some c \<Rightarrow> worktrees @ [c] | None \<Rightarrow> worktrees)"

text \<open>The loop that marks the worktree the process stands in.\<close>

definition markCurrent :: "'w platform \<Rightarrow> 'w \<Rightarrow> Worktree list \<Rightarrow> Worktree list" where
  "markCurrent sys w worktrees =
     (case getwd sys w of
        Some cwd \<Rightarrow>
          (let cwd = absPath sys w cwd
           in map (\<lambda>wt.
                let wtAbs = absPath sys w (Path wt)
                in if cwd = wtAbs \<or> HasPrefix cwd (wtAbs @ [pathSeparator sys])
                   then wt\<lparr>IsCurrent := True\<rparr> else wt) worktrees)
      | None \<Rightarrow> worktrees)"

definition ListWorktrees :: "'w platform \<Rightarrow> 'w \<Rightarrow> string \<Rightarrow> 'w \<times> (string + Worktree list)" where
  "ListWorktrees sys w repoDir =
     (case run sys w repoDir [''worktree'', ''list'', ''--porcelain''] of
        (w', Inl err) \<Rightarrow> (w', Inl err)
      | (w', Inr outp) \<Rightarrow> (w', Inr (markCurrent sys w' (parsePorcelain sys outp))))"

text \<open>
  The loop of \<open>RemoveWorktree\<close> that looks the branch of the target up: it breaks at
  the first worktree with the target's absolute path.
\<close>

fun findBranch :: "'w platform \<Rightarrow> 'w \<Rightarrow> string \<Rightarrow> Worktree list \<Rightarrow> string" where
  "findBranch sys w wtPath [] = []"
| "findBranch sys w wtPath (wt # wts) =
     (let absWt = absPath sys w (Path wt);
          absTarget = absPath sys w wtPath
      in if absWt = absTarget then BranchShort wt else findBranch sys w wtPath wts)"

text \<open>
  \<open>RemoveWorktree\<close> in its three steps. First, with \<open>deleteBranch\<close>, the branch of
  the target is looked up (the empty name when the listing fails or has no such path).
\<close>

definition lookupBranch :: "'w platform \<Rightarrow> 'w \<Rightarrow> string \<Rightarrow> string \<Rightarrow> bool \<Rightarrow> 'w \<times> string" where
  "lookupBranch sys w repoDir wtPath deleteBranch =
     (if deleteBranch then
        (case ListWorktrees sys w repoDir of
           (w', Inr worktrees) \<Rightarrow> (w', findBranch sys w' wtPath worktrees)
         | (w', Inl err) \<Rightarrow> (w', []))
      else (w, []))"

text \<open>
  Second, the removal, and the forced removal when that fails; the error, if any, is
  the one of the forced attempt.
\<close>

definition removeOrForce :: "'w platform \<Rightarrow> 'w \<Rightarrow> string \<Rightarrow> string \<Rightarrow> 'w \<times> string option" where
  "removeOrForce sys w repoDir wtPath =
     (case run sys w repoDir [''worktree'', ''remove'', wtPath] of
        (w', Inl err) \<Rightarrow>
          (case run sys w' repoDir [''worktree'', ''remove'', ''--force'', wtPath] of
             (w'', Inl err') \<Rightarrow> (w'', Some err')
           | (w'', Inr _) \<Rightarrow> (w'', None))
      | (w', Inr _) \<Rightarrow> (w', None))"

text \<open>
  Third, unless the removal has returned its error, the branch is deleted and the result
  of that deletion is dropped. The result of \<open>RemoveWorktree\<close> is the world left behind
  and the returned error (\<open>None\<close> for nil).
\<close>

definition RemoveWorktree ::
  "'w platform \<Rightarrow> 'w \<Rightarrow> string \<Rightarrow> string \<Rightarrow> bool \<Rightarrow> 'w \<times> string option" where
  "RemoveWorktree sys w repoDir wtPath deleteBranch =
     (let (w1, branchName) = lookupBranch sys w repoDir wtPath deleteBranch;
          (w2, removal) = removeOrForce sys w1 repoDir wtPath
      in case removal of
           Some err \<Rightarrow> (w2, Some err)
         | None \<Rightarrow>
             (if deleteBranch \<and> branchName \<noteq> []
              then (fst (run sys w2 repoDir [''branch'', ''-d'', branchName]), None)
              else (w2, None)))"

definition PruneWorktrees :: "'w platform \<Rightarrow> 'w \<Rightarrow> string \<Rightarrow> 'w \<times> string option" where
  "PruneWorktrees sys w repoDir =
     (case run sys w repoDir [''worktree'', ''prune''] of
        (w', Inl err) \<Rightarrow> (w', Some err)
      | (w', Inr _) \<Rightarrow> (w', None))"

subsection \<open>The multi-select session (package tui, src/internal/tui/selector.go)\<close>

datatype mode = modeList | modeConfirm | modeDone

record item =
  worktree :: Worktree
  checked :: bool

record model =
  items :: "item list"
  cursor :: int
  mode :: mode
  confirmCursor :: int
  repoDir :: string
  removed :: "string list"
  errors :: "string list"
  width :: int
  height :: int

text \<open>
  A message of the event loop: a window size, a key (by the name \<open>msg.String()\<close> gives
  it) or any other message. A command is nil or \<open>tea.Quit\<close>.
\<close>

datatype msg = WindowSizeMsg int int | KeyMsg string | OtherMsg

datatype cmd = NoCmd | Quit

text \<open>The run-time panic of an index expression out of range.\<close>

datatype panic = IndexOutOfRange

definition New :: "Worktree list \<Rightarrow> string \<Rightarrow> model" where
  "New worktrees dir =
     \<lparr>items = map (\<lambda>wt. \<lparr>worktree = wt, checked = False\<rparr>) worktrees,
      cursor = 0, mode = modeList, confirmCursor = 0, repoDir = dir,
      removed = [], errors = [], width = 0, height = 0\<rparr>"

definition selectedCount :: "model \<Rightarrow> int" where
  "selectedCount m = foldl (\<lambda>count it. if checked it then count + 1 else count) 0 (items m)"

definition updateList :: "model \<Rightarrow> string \<Rightarrow> panic + (model \<times> cmd)" where
  "updateList m key =
     (if key = ''q'' \<or> key = ''ctrl+c'' \<or> key = ''esc'' then Inr (m, Quit)
      else if key = ''up'' \<or> key = ''k'' then
        Inr (if cursor m > 0 then m\<lparr>cursor := cursor m - 1\<rparr> else m, NoCmd)
      else if key = ''down'' \<or> key = ''j'' then
        Inr (if cursor m < int (length (items m)) - 1 then m\<lparr>cursor := cursor m + 1\<rparr> else m,
             NoCmd)
      else if key = '' '' \<or> key = ''x'' then
        (if 0 \<le> cursor m \<and> cursor m < int (length (items m)) then
           (let i = nat (cursor m); it = items m ! i
            in if \<not> IsCurrent (worktree it)
               then Inr (m\<lparr>items := (items m)[i := it\<lparr>checked := \<not> checked it\<rparr>]\<rparr>, NoCmd)
               else Inr (m, NoCmd))
         else Inl IndexOutOfRange)
      else if key = ''a'' then
        Inr (m\<lparr>items :=
               map (\<lambda>it. if \<not> IsCurrent (worktree it) \<and> IsMerged (worktree it)
                          then it\<lparr>checked := True\<rparr> else it) (items m)\<rparr>, NoCmd)
      else if key = ''n'' then
        Inr (m\<lparr>items := map (\<lambda>it. it\<lparr>checked := False\<rparr>) (items m)\<rparr>, NoCmd)
      else if key = ''d'' \<or> key = ''enter'' then
        (let selected = selectedCount m
         in if selected > 0 then Inr (m\<lparr>mode := modeConfirm, confirmCursor := 0\<rparr>, NoCmd)
            else Inr (m, NoCmd))
      else Inr (m, NoCmd))"

text \<open>
  The loop of \<open>executeRemoval\<close> over the items, threading the world and the two
  result slices; an unchecked item is skipped by \<open>continue\<close>.
\<close>

fun removalLoop ::
  "'w platform \<Rightarrow> string \<Rightarrow> item list \<Rightarrow> 'w \<times> string list \<times> string list
     \<Rightarrow> 'w \<times> string list \<times> string list" where
  "removalLoop sys dir [] st = st"
| "removalLoop sys dir (it # its) (w, rem, errs) =
     (if \<not> checked it then removalLoop sys dir its (w, rem, errs)
      else
        (let wt = worktree it;
             branch = BranchShort wt;
             deleteBranch = IsMerged wt
         in case RemoveWorktree sys w dir (Path wt) deleteBranch of
              (w', Some err) \<Rightarrow> removalLoop sys dir its (w', rem, errs @ [branch @ '': '' @ err])
            | (w', None) \<Rightarrow> removalLoop sys dir its (w', rem @ [branch], errs)))"

definition executeRemoval :: "'w platform \<Rightarrow> 'w \<Rightarrow> model \<Rightarrow> 'w \<times> model \<times> cmd" where
  "executeRemoval sys w m =
     (let (w1, rem, errs) = removalLoop sys (repoDir m) (items m) (w, removed m, errors m);
          (w2, _) = PruneWorktrees sys w1 (repoDir m)
      in (w2, m\<lparr>removed := rem, errors := errs, mode := modeDone\<rparr>, NoCmd))"

definition updateConfirm :: "'w platform \<Rightarrow> 'w \<Rightarrow> model \<Rightarrow> string \<Rightarrow> 'w \<times> model \<times> cmd" where
  "updateConfirm sys w m key =
     (if key = ''q'' \<or> key = ''ctrl+c'' \<or> key = ''esc'' then (w, m\<lparr>mode := modeList\<rparr>, NoCmd)
      else if key = ''left'' \<or> key = ''h'' \<or> key = ''right'' \<or> key = ''l'' \<or> key = ''tab'' then
        (w, m\<lparr>confirmCursor := 1 - confirmCursor m\<rparr>, NoCmd)
      else if key = ''y'' then executeRemoval sys w (m\<lparr>confirmCursor := 1\<rparr>)
      else if key = ''n'' then (w, m\<lparr>mode := modeList\<rparr>, NoCmd)
      else if key = ''enter'' then
        (if confirmCursor m = 1 then executeRemoval sys w m
         else (w, m\<lparr>mode := modeList\<rparr>, NoCmd))
      else (w, m, NoCmd))"

definition updateDone :: "model \<Rightarrow> string \<Rightarrow> model \<times> cmd" where
  "updateDone m key = (m, Quit)"

definition Update :: "'w platform \<Rightarrow> 'w \<Rightarrow> model \<Rightarrow> msg \<Rightarrow> panic + ('w \<times> model \<times> cmd)" where
  "Update sys w m message =
     (case message of
        WindowSizeMsg wd ht \<Rightarrow> Inr (w, m\<lparr>width := wd, height := ht\<rparr>, NoCmd)
      | KeyMsg key \<Rightarrow>
          (case mode m of
             modeList \<Rightarrow>
               (case updateList m key of
                  Inl p \<Rightarrow> Inl p
                | Inr (m', c) \<Rightarrow> Inr (w, m', c))
           | modeConfirm \<Rightarrow> Inr (updateConfirm sys w m key)
           | modeDone \<Rightarrow> (case updateDone m key of (m', c) \<Rightarrow> Inr (w, m', c)))
      | OtherMsg \<Rightarrow> Inr (w, m, NoCmd))"

text \<open>
  The event loop hands each message to \<open>Update\<close> and continues with the model it
  returns. \<open>steps\<close> feeds a list of messages, whatever command comes back (the loop
  may deliver messages that were already queued when \<open>tea.Quit\<close> was returned), and
  stops at a panic.
\<close>

fun steps :: "'w platform \<Rightarrow> 'w \<Rightarrow> model \<Rightarrow> msg list \<Rightarrow> panic + ('w \<times> model)" where
  "steps sys w m [] = Inr (w, m)"
| "steps sys w m (message # rest) =
     (case Update sys w m message of
        Inl p \<Rightarrow> Inl p
      | Inr (w', m', c) \<Rightarrow> steps sys w' m' rest)"

subsection \<open>The single-select session (package tui, src/internal/tui/selector.go)\<close>

text \<open>
  The fields of \<open>selectorModel\<close> carry the prefix \<open>sel_\<close>: a record cannot share
  field names with \<open>model\<close>, and \<open>done\<close> is a keyword.
\<close>

record selectorModel =
  sel_items :: "Worktree list"
  sel_cursor :: int
  sel_selected :: "Worktree option"
  sel_done :: bool
  sel_width :: int
  sel_height :: int

definition NewSelector :: "Worktree list \<Rightarrow> selectorModel" where
  "NewSelector worktrees =
     \<lparr>sel_items = worktrees, sel_cursor = 0, sel_selected = None, sel_done = False,
      sel_width = 0, sel_height = 0\<rparr>"

definition selectorUpdate :: "selectorModel \<Rightarrow> msg \<Rightarrow> panic + (selectorModel \<times> cmd)" where
  "selectorUpdate m message =
     (case message of
        WindowSizeMsg wd ht \<Rightarrow> Inr (m\<lparr>sel_width := wd, sel_height := ht\<rparr>, NoCmd)
      | KeyMsg key \<Rightarrow>
          (if key = ''q'' \<or> key = ''ctrl+c'' \<or> key = ''esc'' then
             Inr (m\<lparr>sel_done := True\<rparr>, Quit)
           else if key = ''up'' \<or> key = ''k'' then
             Inr (if sel_cursor m > 0 then m\<lparr>sel_cursor := sel_cursor m - 1\<rparr> else m, NoCmd)
           else if key = ''down'' \<or> key = ''j'' then
             Inr (if sel_cursor m < int (length (sel_items m)) - 1
                  then m\<lparr>sel_cursor := sel_cursor m + 1\<rparr> else m, NoCmd)
           else if key = ''enter'' then
             (if length (sel_items m) > 0 then
                (if 0 \<le> sel_cursor m \<and> sel_cursor m < int (length (sel_items m))
                 then Inr (m\<lparr>sel_selected := Some (sel_items m ! nat (sel_cursor m)),
                            sel_done := True\<rparr>, Quit)
                 else Inl IndexOutOfRange)
              else Inr (m\<lparr>sel_done := True\<rparr>, Quit))
           else Inr (m, NoCmd))
      | OtherMsg \<Rightarrow> Inr (m, NoCmd))"

subsection \<open>The removal batch in the words of the specification\<close>




subsection \<open>Recording the git processes a platform starts\<close>

text \<open>
  \<open>logged sys\<close> behaves as \<open>sys\<close> and appends the directory and the arguments of every
  git process to a list kept beside the world.
\<close>

definition logged :: "'w platform \<Rightarrow> ('w \<times> (string \<times> string list) list) platform" where
  "logged sys =
     \<lparr>exec_git = (\<lambda>(w, calls) dir args.
        case exec_git sys w dir args of (w', r) \<Rightarrow> ((w', calls @ [(dir, args)]), r)),
      getwd = (\<lambda>(w, calls). getwd sys w),
      absPath = (\<lambda>(w, calls). absPath sys w),
      pathSeparator = pathSeparator sys, TrimSpace = TrimSpace sys, ToLower = ToLower sys,
      EqualFold = EqualFold sys, scanLines = scanLines sys, Render = Render sys,
      daysOfDuration = daysOfDuration sys\<rparr>"

text \<open>
  The calls \<open>git worktree remove <path>\<close> (the unforced attempt) and
  \<open>git worktree prune\<close>.
\<close>

definition isRemoveCall :: "string \<times> string list \<Rightarrow> bool" where
  "isRemoveCall c = (case snd c of [a, b, p] \<Rightarrow> a = ''worktree'' \<and> b = ''remove'' | _ \<Rightarrow> False)"

definition isPruneCall :: "string \<times> string list \<Rightarrow> bool" where
  "isPruneCall c = (snd c = [''worktree'', ''prune''])"

text \<open>The invariant of the selection: no item of the current worktree is checked.\<close>

definition currentUnchecked :: "item list \<Rightarrow> bool" where
  "currentUnchecked xs = (\<forall>it\<in>set xs. IsCurrent (worktree it) \<longrightarrow> \<not> checked it)"

section \<open>A sample platform\<close>

text \<open>
  A concrete platform on which the theorems below are exercised. Its world counts the
  git processes started so far. On ASCII text \<open>strings.ToLower\<close> maps the letters A to
  Z to a to z, \<open>strings.EqualFold\<close> compares the lowered strings and
  \<open>strings.TrimSpace\<close> strips tabs, line feeds, vertical tabs, form feeds, carriage
  returns and spaces from both ends; a scanner yields the text between line feeds;
  a style renders a string unchanged on a terminal without colours; the day count is
  that of Go's arithmetic. Git lists three worktrees, fails to remove the one at
  \<open>/repo-locked\<close> and fails to delete the branch \<open>feature-a\<close>.
\<close>

definition asciiLower :: "string \<Rightarrow> string" where
  "asciiLower s =
     map (\<lambda>c. case map_of (zip ''ABCDEFGHIJKLMNOPQRSTUVWXYZ'' ''abcdefghijklmnopqrstuvwxyz'') c of
                 Some d \<Rightarrow> d | None \<Rightarrow> c) s"

definition asciiSpace :: "char \<Rightarrow> bool" where
  "asciiSpace c = (c \<in> set [CHR 0x09, CHR 0x0A, CHR 0x0B, CHR 0x0C, CHR 0x0D, CHR '' ''])"

definition asciiTrimSpace :: "string \<Rightarrow> string" where
  "asciiTrimSpace s = rev (dropWhile asciiSpace (rev (dropWhile asciiSpace s)))"

definition splitLines :: "string \<Rightarrow> string list" where
  "splitLines s =
     foldr (\<lambda>c acc. if c = CHR 0x0A then [] # acc
                     else (case acc of [] \<Rightarrow> [[c]] | l # ls \<Rightarrow> (c # l) # ls)) s []"

definition branchWt :: "string \<Rightarrow> Worktree" where
  "branchWt name = zeroWorktree\<lparr>Path := ''/repo-'' @ name, Branch := ''refs/heads/'' @ name\<rparr>"

definition samplePorcelain :: string where
  "samplePorcelain =
     ''worktree /repo'' @ [CHR 0x0A] @ ''HEAD aaaa1111'' @ [CHR 0x0A]
     @ ''branch refs/heads/main'' @ [CHR 0x0A] @ [CHR 0x0A]
     @ ''worktree /repo-feature-a'' @ [CHR 0x0A] @ ''HEAD bbbb2222'' @ [CHR 0x0A]
     @ ''branch refs/heads/feature-a'' @ [CHR 0x0A] @ [CHR 0x0A]
     @ ''worktree /repo-locked'' @ [CHR 0x0A] @ ''HEAD cccc3333'' @ [CHR 0x0A]
     @ ''branch refs/heads/locked''"

definition sampleExec :: "nat \<Rightarrow> string \<Rightarrow> string list \<Rightarrow> nat \<times> cmd_result" where
  "sampleExec w dir args =
     (Suc w,
      if args = [''worktree'', ''list'', ''--porcelain'']
      then \<lparr>run_err = None, out = samplePorcelain, err_out = []\<rparr>
      else if ''/repo-locked'' \<in> set args
      then \<lparr>run_err = Some ''exit status 128'', out = [], err_out = ''fatal: locked'' @ [CHR 0x0A]\<rparr>
      else if args = [''branch'', ''-d'', ''feature-a'']
      then \<lparr>run_err = Some ''exit status 1'', out = [], err_out = ''error: not found''\<rparr>
      else \<lparr>run_err = None, out = [], err_out = []\<rparr>)"

definition samplePlatform :: "nat platform" where
  "samplePlatform =
     \<lparr>exec_git = sampleExec, getwd = (\<lambda>w. Some ''/repo''), absPath = (\<lambda>w p. p),
      pathSeparator = CHR ''/'', TrimSpace = asciiTrimSpace, ToLower = asciiLower,
      EqualFold = (\<lambda>a b. asciiLower a = asciiLower b), scanLines = splitLines,
      Render = (\<lambda>st s. s), daysOfDuration = float64Days\<rparr>"

definition sampleMain :: Worktree where
  "sampleMain = zeroWorktree\<lparr>Path := ''/repo'', Branch := ''refs/heads/main'', IsCurrent := True\<rparr>"

definition sampleFeature :: Worktree where
  "sampleFeature = (branchWt ''feature-a'')\<lparr>IsMerged := True\<rparr>"

definition sampleLocked :: Worktree where
  "sampleLocked = branchWt ''locked''"

definition sampleList :: model where
  "sampleList = New [sampleMain, sampleFeature, sampleLocked] ''/repo''"

definition sampleChecked :: model where
  "sampleChecked =
     sampleList\<lparr>items := [\<lparr>worktree = sampleMain, checked = False\<rparr>,
                          \<lparr>worktree = sampleFeature, checked = True\<rparr>,
                          \<lparr>worktree = sampleLocked, checked = True\<rparr>],
                cursor := 2\<rparr>"

definition sampleConfirm :: model where
  "sampleConfirm = sampleChecked\<lparr>mode := modeConfirm\<rparr>"

definition sampleOld :: Worktree where
  "sampleOld = (branchWt ''old'')\<lparr>LastCommit := 0\<rparr>"

definition staleFlag30 :: cleanFlags where
  "staleFlag30 = \<lparr>cleanMerged = False, cleanStaleDays = 30\<rparr>"

section \<open>Properties of the binary64 day count\<close>

subsection \<open>Rounding to the nearest representable number\<close>

lemma rhe_int [simp]: "roundHalfEven (of_int n) = n"
  by (simp add: roundHalfEven_def)

lemma rhe_bounds: "of_int (roundHalfEven q) \<le> q + 1/2" "q - 1/2 \<le> of_int (roundHalfEven q)"
  unfolding roundHalfEven_def Let_def by (auto; linarith)+

lemma rhe_floor: "\<lfloor>q\<rfloor> \<le> roundHalfEven q" "roundHalfEven q \<le> \<lfloor>q\<rfloor> + 1"
  unfolding roundHalfEven_def Let_def by auto

lemma rhe_mono: assumes "a \<le> b" shows "roundHalfEven a \<le> roundHalfEven b"
proof (cases "\<lfloor>a\<rfloor> = \<lfloor>b\<rfloor>")
  case True
  with assms show ?thesis unfolding roundHalfEven_def Let_def by auto
next
  case False
  with floor_mono [OF assms] have "\<lfloor>a\<rfloor> + 1 \<le> \<lfloor>b\<rfloor>" by linarith
  with rhe_floor(2) [of a] rhe_floor(1) [of b] show ?thesis by linarith
qed

lemma rhe_minus: "roundHalfEven (- q) = - roundHalfEven q"
proof (cases "q = of_int \<lfloor>q\<rfloor>")
  case True
  then obtain n where "q = of_int n" by blast
  then have "- q = of_int (- n)" by simp
  then show ?thesis using \<open>q = of_int n\<close> by (metis rhe_int)
next
  case False
  then have f: "\<lfloor>- q\<rfloor> = - \<lfloor>q\<rfloor> - 1"
    by (metis ceiling_altdef ceiling_def diff_minus_eq_add minus_add_cancel minus_diff_eq uminus_add_conv_diff)
  show ?thesis unfolding roundHalfEven_def Let_def f by (auto; linarith?)
qed

lemma binade_bounds:
  assumes "x \<noteq> 0"
  shows "2 powi (binade x) \<le> \<bar>x\<bar>" and "\<bar>x\<bar> < 2 powi (binade x + 1)"
proof -
  define a where "a = \<bar>x\<bar>"
  have pos: "a > 0" using assms by (simp add: a_def)
  have "2 powi (binade x) \<le> a \<and> a < 2 powi (binade x + 1)"
  proof (cases "a \<ge> 1")
    case True
    define n where "n = \<lfloor>a\<rfloor>"
    have n1: "n \<ge> 1" using True by (simp add: n_def)
    then have npos: "n > 0" by simp
    have b: "binade x = bitlen n - 1" using True by (simp add: binade_def a_def n_def)
    have bl: "bitlen n \<ge> 1" using npos bitlen_eq_zero_iff [of n] bitlen_nonneg [of n] by linarith
    from bitlen_bounds [OF npos]
    have lo: "(2::int) ^ nat (bitlen n - 1) \<le> n" and hi: "n < (2::int) ^ nat (bitlen n)" by auto
    have "2 powi (bitlen n - 1) = real_of_int (2 ^ nat (bitlen n - 1))"
      using bl by (simp add: power_int_def)
    also have "\<dots> \<le> real_of_int n" using lo by linarith
    also have "\<dots> \<le> a" by (simp add: n_def)
    finally have 1: "2 powi (binade x) \<le> a" by (simp add: b)
    have "a < real_of_int n + 1" by (simp add: n_def)
    also have "\<dots> \<le> real_of_int (2 ^ nat (bitlen n))" using hi by linarith
    also have "\<dots> = 2 powi (bitlen n)" using bl by (simp add: power_int_def)
    finally have 2: "a < 2 powi (binade x + 1)" by (simp add: b)
    from 1 2 show ?thesis by simp
  next
    case False
    then have lt: "a < 1" by simp
    define c where "c = \<lceil>1 / a\<rceil>"
    define m where "m = c - 1"
    have inv: "1 / a > 1" using pos lt by simp
    have c2: "c \<ge> 2" using inv unfolding c_def by linarith
    have mpos: "m > 0" using c2 by (simp add: m_def)
    have b: "binade x = - bitlen m" using False by (simp add: binade_def a_def c_def m_def)
    have bl: "bitlen m \<ge> 1" using mpos bitlen_eq_zero_iff [of m] bitlen_nonneg [of m] by linarith
    from bitlen_bounds [OF mpos]
    have lo: "(2::int) ^ nat (bitlen m - 1) \<le> m" and hi: "m < (2::int) ^ nat (bitlen m)" by auto
    have cle: "1 / a \<le> real_of_int c" by (simp add: c_def)
    have mlt: "real_of_int m < 1 / a" unfolding m_def c_def by linarith
    have "1 / a \<le> real_of_int (2 ^ nat (bitlen m))"
      using cle hi unfolding m_def by linarith
    then have "1 / a \<le> 2 ^ nat (bitlen m)" by simp
    then have "1 / 2 ^ nat (bitlen m) \<le> a"
      using pos by (simp add: field_simps)
    moreover have "(2::real) powi (- bitlen m) = 1 / 2 ^ nat (bitlen m)"
      using bl by (simp add: power_int_def field_simps)
    ultimately have 1: "2 powi (binade x) \<le> a" by (simp add: b)
    have "real_of_int (2 ^ nat (bitlen m - 1)) < 1 / a"
      using lo mlt by linarith
    then have "2 ^ nat (bitlen m - 1) < 1 / a" by simp
    then have "a < 1 / 2 ^ nat (bitlen m - 1)"
      using pos by (simp add: field_simps)
    moreover have "(2::real) powi (- bitlen m + 1) = 1 / 2 ^ nat (bitlen m - 1)"
    proof (cases "bitlen m = 1")
      case True
      then show ?thesis by simp
    next
      case False
      with bl have "- bitlen m + 1 < 0" by simp
      then show ?thesis by (simp add: power_int_def field_simps nat_diff_distrib)
    qed
    ultimately have 2: "a < 2 powi (binade x + 1)" by (simp add: b)
    from 1 2 show ?thesis by simp
  qed
  then show "2 powi (binade x) \<le> \<bar>x\<bar>" and "\<bar>x\<bar> < 2 powi (binade x + 1)"
    by (simp_all add: a_def)
qed

lemma powi2_mono: "i \<le> j \<Longrightarrow> (2::real) powi i \<le> 2 powi j"
  by (simp add: power_int_increasing)

lemma powi2_pos: "(2::real) powi i > 0"
  by (simp add: zero_less_power_int)

lemma binade_unique:
  assumes "2 powi e \<le> \<bar>x\<bar>" and "\<bar>x\<bar> < 2 powi (e + 1)"
  shows "binade x = e"
proof -
  have "(2::real) powi e > 0" by (rule powi2_pos)
  with assms(1) have "\<bar>x\<bar> > 0" by linarith
  then have nz: "x \<noteq> 0" by auto
  note b = binade_bounds [OF nz]
  have "\<not> binade x < e"
  proof
    assume "binade x < e"
    then have "binade x + 1 \<le> e" by simp
    then have "(2::real) powi (binade x + 1) \<le> 2 powi e" by (rule powi2_mono)
    with b(2) assms(1) show False by linarith
  qed
  moreover have "\<not> e < binade x"
  proof
    assume "e < binade x"
    then have "e + 1 \<le> binade x" by simp
    then have "(2::real) powi (e + 1) \<le> 2 powi binade x" by (rule powi2_mono)
    with b(1) assms(2) show False by linarith
  qed
  ultimately show ?thesis by linarith
qed

lemma binade_minus [simp]: "binade (- x) = binade x"
  by (simp add: binade_def)

lemma ulpExp_minus [simp]: "ulpExp (- x) = ulpExp x"
  by (simp add: ulpExp_def)

lemma round64_zero [simp]: "round64 0 = 0"
  by (simp add: round64_def)

lemma round64_minus: "round64 (- x) = - round64 x"
  by (simp add: round64_def Let_def rhe_minus)

lemma rhe_nonneg:
  assumes "0 \<le> q"
  shows "0 \<le> roundHalfEven q"
proof -
  from assms have "0 \<le> \<lfloor>q\<rfloor>" by simp
  with rhe_floor(1) [of q] show ?thesis by linarith
qed

lemma round64_nonneg: assumes "0 \<le> x" shows "0 \<le> round64 x"
proof (cases "x = 0")
  case True
  then show ?thesis by simp
next
  case False
  have "0 \<le> x / 2 powi (ulpExp x)" using assms powi2_pos [of "ulpExp x"] by simp
  then have "0 \<le> roundHalfEven (x / 2 powi (ulpExp x))" by (rule rhe_nonneg)
  with False powi2_pos [of "ulpExp x"] show ?thesis by (simp add: round64_def Let_def)
qed

lemma powi2_diff: "(2::real) powi i / 2 powi j = 2 powi (i - j)"
  by (simp add: power_int_diff)

lemma powi2_nat: "0 \<le> i \<Longrightarrow> (2::real) powi i = of_int (2 ^ nat i)"
  by (simp add: power_int_def)

lemma binade_le:
  assumes "x \<noteq> 0" and "\<bar>x\<bar> < 2 powi e"
  shows "binade x < e"
proof (rule ccontr)
  assume "\<not> binade x < e"
  then have "e \<le> binade x" by simp
  then have "(2::real) powi e \<le> 2 powi binade x" by (rule powi2_mono)
  with binade_bounds(1) [OF assms(1)] assms(2) show False by linarith
qed

lemma round64_at:
  assumes "x \<noteq> 0" and "ulpExp x = u"
  shows "round64 x = of_int (roundHalfEven (x / 2 powi u)) * 2 powi u"
  using assms by (simp add: round64_def Let_def)

lemma round64_exact:
  assumes "\<bar>n\<bar> < 2 ^ 53" and "- 1074 \<le> j"
  shows "round64 (of_int n * 2 powi j) = of_int n * 2 powi j"
proof (cases "n = 0")
  case True
  then show ?thesis by simp
next
  case False
  define x where "x = real_of_int n * 2 powi j"
  define u where "u = ulpExp x"
  have nz: "x \<noteq> 0" using False powi2_pos [of j] by (simp add: x_def)
  have "\<bar>x\<bar> = real_of_int \<bar>n\<bar> * 2 powi j"
    using powi2_pos [of j] by (simp add: abs_mult x_def)
  also have "\<dots> < 2 ^ 53 * 2 powi j"
  proof -
    have "real_of_int \<bar>n\<bar> < real_of_int (2 ^ 53)" using assms(1) by linarith
    then show ?thesis using powi2_pos [of j] by simp
  qed
  also have "\<dots> = 2 powi (53 + j)"
    by (simp add: power_int_add)
  finally have "binade x < 53 + j" by (rule binade_le [OF nz])
  then have le: "u \<le> j" using assms(2) by (simp add: ulpExp_def u_def)
  define k where "k = nat (j - u)"
  have "(2::real) powi j = 2 powi (j - u) * 2 powi u"
    by (simp flip: power_int_add)
  also have "(2::real) powi (j - u) = of_int (2 ^ k)"
    using le by (simp add: powi2_nat k_def)
  finally have pj: "(2::real) powi j = of_int (2 ^ k) * 2 powi u" .
  have xu: "x = of_int (n * 2 ^ k) * 2 powi u"
    by (simp add: x_def pj)
  have "x / 2 powi u = of_int (n * 2 ^ k)"
    using powi2_pos [of u] by (simp add: xu)
  then have "roundHalfEven (x / 2 powi u) = n * 2 ^ k"
    by (metis rhe_int)
  with round64_at [OF nz, of u] have "round64 x = of_int (n * 2 ^ k) * 2 powi u"
    by (simp add: u_def)
  with xu have "round64 x = x" by simp
  then show ?thesis by (simp add: x_def)
qed

lemma round64_int: "\<bar>n\<bar> < 2 ^ 53 \<Longrightarrow> round64 (of_int n) = of_int n"
  using round64_exact [of n 0] by simp

lemma binade_mono:
  assumes "0 < x" and "x \<le> y"
  shows "binade x \<le> binade y"
proof -
  have nx: "x \<noteq> 0" and ny: "y \<noteq> 0" using assms by auto
  have "2 powi binade x \<le> \<bar>x\<bar>" by (rule binade_bounds(1) [OF nx])
  also have "\<dots> \<le> \<bar>y\<bar>" using assms by simp
  also have "\<dots> < 2 powi (binade y + 1)" by (rule binade_bounds(2) [OF ny])
  finally have lt: "(2::real) powi binade x < 2 powi (binade y + 1)" .
  have "\<not> binade y + 1 \<le> binade x"
  proof
    assume "binade y + 1 \<le> binade x"
    then have "(2::real) powi (binade y + 1) \<le> 2 powi binade x" by (rule powi2_mono)
    with lt show False by linarith
  qed
  then show ?thesis by simp
qed

lemma round64_mono_pos:
  assumes "0 < x" and "x \<le> y"
  shows "round64 x \<le> round64 y"
proof -
  define ux where "ux = ulpExp x"
  define uy where "uy = ulpExp y"
  have nx: "x \<noteq> 0" and ny: "y \<noteq> 0" and ypos: "0 < y" using assms by auto
  have bm: "binade x \<le> binade y" using assms by (rule binade_mono)
  then have um: "ux \<le> uy" by (simp add: ux_def uy_def ulpExp_def)
  have rx: "round64 x = of_int (roundHalfEven (x / 2 powi ux)) * 2 powi ux"
    using nx by (rule round64_at) (simp add: ux_def)
  have ry: "round64 y = of_int (roundHalfEven (y / 2 powi uy)) * 2 powi uy"
    using ny by (rule round64_at) (simp add: uy_def)
  show ?thesis
  proof (cases "ux = uy")
    case True
    have "x / 2 powi ux \<le> y / 2 powi ux"
      using assms(2) powi2_pos [of ux] by (simp add: divide_right_mono)
    then have "roundHalfEven (x / 2 powi ux) \<le> roundHalfEven (y / 2 powi ux)"
      by (rule rhe_mono)
    then have "real_of_int (roundHalfEven (x / 2 powi ux)) * 2 powi ux
        \<le> real_of_int (roundHalfEven (y / 2 powi ux)) * 2 powi ux"
      using powi2_pos [of ux] by (simp add: mult_right_mono)
    then show ?thesis by (simp add: rx ry True)
  next
    case False
    with um have lt: "ux < uy" by simp
    then have by1: "binade y > - 1022" and uyb: "uy = binade y - 52"
      and bb: "max (binade x) (- 1022) < binade y"
      by (auto simp: ux_def uy_def ulpExp_def)
    define e where "e = binade y"
    have bxe: "binade x + 1 \<le> e" using bb by (simp add: e_def)
    have ux_e: "ux \<le> e" using bb unfolding ux_def ulpExp_def e_def by linarith
    have "2 powi e \<le> \<bar>y\<bar>" unfolding e_def by (rule binade_bounds(1) [OF ny])
    then have "2 powi e \<le> y" using ypos by simp
    then have "2 powi e / 2 powi uy \<le> y / 2 powi uy"
      using powi2_pos [of uy] by (simp add: divide_right_mono)
    moreover have "(2::real) powi e / 2 powi uy = of_int (2 ^ 52)"
      by (simp add: powi2_diff uyb e_def)
    ultimately have "of_int (2 ^ 52) \<le> y / 2 powi uy" by simp
    then have "roundHalfEven (of_int (2 ^ 52)) \<le> roundHalfEven (y / 2 powi uy)"
      by (rule rhe_mono)
    then have "(2::int) ^ 52 \<le> roundHalfEven (y / 2 powi uy)"
      by (simp only: rhe_int)
    then have "real_of_int (2 ^ 52) \<le> real_of_int (roundHalfEven (y / 2 powi uy))"
      by linarith
    then have "real_of_int (2 ^ 52) * 2 powi uy \<le> round64 y"
      using powi2_pos [of uy] by (simp add: ry mult_right_mono)
    moreover have "real_of_int (2 ^ 52) * 2 powi uy = 2 powi e"
      by (simp add: uyb e_def power_int_diff)
    ultimately have hi: "2 powi e \<le> round64 y" by simp
    define k where "k = nat (e - ux)"
    have pk: "(2::real) powi e / 2 powi ux = of_int (2 ^ k)"
      using ux_e by (simp add: powi2_diff powi2_nat k_def)
    have "\<bar>x\<bar> < 2 powi (binade x + 1)" by (rule binade_bounds(2) [OF nx])
    also have "\<dots> \<le> 2 powi e" using bxe by (rule powi2_mono)
    finally have "x \<le> 2 powi e" using assms(1) by simp
    then have "x / 2 powi ux \<le> 2 powi e / 2 powi ux"
      using powi2_pos [of ux] by (simp add: divide_right_mono)
    then have "x / 2 powi ux \<le> of_int (2 ^ k)" by (simp only: pk)
    then have "roundHalfEven (x / 2 powi ux) \<le> roundHalfEven (of_int (2 ^ k))"
      by (rule rhe_mono)
    then have "roundHalfEven (x / 2 powi ux) \<le> 2 ^ k" by (simp only: rhe_int)
    then have "real_of_int (roundHalfEven (x / 2 powi ux)) \<le> real_of_int (2 ^ k)"
      by linarith
    then have "round64 x \<le> real_of_int (2 ^ k) * 2 powi ux"
      using powi2_pos [of ux] by (simp add: rx mult_right_mono)
    moreover have "real_of_int (2 ^ k) * 2 powi ux = 2 powi e"
      using pk powi2_pos [of ux] by (simp add: field_simps)
    ultimately have lo: "round64 x \<le> 2 powi e" by simp
    from lo hi show ?thesis by linarith
  qed
qed

lemma round64_mono:
  assumes "x \<le> y"
  shows "round64 x \<le> round64 y"
proof -
  consider (pos) "0 < x" | (neg) "y < 0" | (mixed) "x \<le> 0" "0 \<le> y"
    using assms by linarith
  then show ?thesis
  proof cases
    case pos
    from this assms show ?thesis by (rule round64_mono_pos)
  next
    case neg
    then have "0 < - y" and "- y \<le> - x" using assms by simp_all
    then have "round64 (- y) \<le> round64 (- x)" by (rule round64_mono_pos)
    then show ?thesis by (simp add: round64_minus)
  next
    case mixed
    from mixed(1) have "0 \<le> round64 (- x)" by (intro round64_nonneg) simp
    then have "round64 x \<le> 0" by (simp add: round64_minus)
    moreover from mixed(2) have "0 \<le> round64 y" by (rule round64_nonneg)
    ultimately show ?thesis by linarith
  qed
qed

subsection \<open>Hours and days of a duration\<close>

lemma quoT_minus: "quoT (- a) b = - quoT a b"
  by (simp add: quoT_def)

lemma remT_minus: "remT (- a) b = - remT a b"
  by (simp add: remT_def quoT_minus)

lemma float64_minus: "float64 (- n) = - float64 n"
  by (simp add: float64_def round64_minus)

lemma Hours_minus: "Hours (- d) = - Hours d"
  by (simp add: Hours_def Let_def quoT_minus remT_minus float64_minus round64_minus
      flip: round64_minus minus_divide_left)

lemma truncInt_minus: "truncInt (- t) = - truncInt t"
  by (auto simp: truncInt_def ceiling_def)

lemma float64Days_minus: "float64Days (- d) = - float64Days d"
  by (simp add: float64Days_def Hours_minus truncInt_minus round64_minus
      flip: minus_divide_left)

lemma round64_one: "round64 1 = 1"
  using round64_int [of 1] by simp

lemma Hours_bounds:
  assumes "0 \<le> d" and "d \<le> 2 ^ 63"
  shows "of_int (d div nsPerHour) \<le> Hours d" and "Hours d \<le> of_int (d div nsPerHour) + 1"
    and "d mod nsPerHour \<le> nsPerHour - 1000000 \<Longrightarrow>
           Hours d \<le> of_int (d div nsPerHour) + 1 - 2 powi (- 22)"
proof -
  define hour where "hour = d div nsPerHour"
  define nsec where "nsec = d mod nsPerHour"
  have q: "quoT d nsPerHour = hour" "remT d nsPerHour = nsec"
    using assms(1) by (auto simp: quoT_def remT_def hour_def nsec_def nsPerHour_def sgn_if
        minus_mult_div_eq_mod)
  have h0: "0 \<le> hour" using assms(1) by (simp add: hour_def nsPerHour_def pos_imp_zdiv_nonneg_iff)
  have "hour \<le> 2 ^ 63 div nsPerHour" unfolding hour_def using assms(2)
    by (simp add: zdiv_mono1 nsPerHour_def)
  then have h1: "hour < 2 ^ 22" by (simp add: nsPerHour_def)
  have n0: "0 \<le> nsec" and n1: "nsec < nsPerHour"
    by (simp_all add: nsec_def nsPerHour_def)
  have fh: "float64 hour = of_int hour"
    unfolding float64_def using h0 h1 by (intro round64_int) simp
  have fn: "float64 nsec = of_int nsec"
    unfolding float64_def using n0 n1 by (intro round64_int) (simp add: nsPerHour_def)
  define f where "f = round64 (of_int nsec / (60 * 60 * 1000000000))"
  have H: "Hours d = round64 (of_int hour + f)"
    by (simp add: Hours_def Let_def q fh fn f_def)
  have "round64 0 \<le> f" unfolding f_def using n0 by (intro round64_mono) simp
  then have f0: "0 \<le> f" by simp
  have "f \<le> round64 1" unfolding f_def using n1
    by (intro round64_mono) (simp add: nsPerHour_def)
  then have f1: "f \<le> 1" by (simp add: round64_one)
  have "round64 (of_int hour) \<le> round64 (of_int hour + f)"
    using f0 by (intro round64_mono) simp
  moreover have "round64 (of_int hour) = of_int hour"
    using h0 h1 by (intro round64_int) simp
  ultimately show "of_int (d div nsPerHour) \<le> Hours d"
    by (simp add: H hour_def)
  have "round64 (of_int hour + f) \<le> round64 (of_int (hour + 1))"
    using f1 by (intro round64_mono) simp
  moreover have "round64 (of_int (hour + 1)) = of_int (hour + 1)"
    using h0 h1 by (intro round64_int) simp
  ultimately show "Hours d \<le> of_int (d div nsPerHour) + 1"
    by (simp add: H hour_def)
  {
    assume "d mod nsPerHour \<le> nsPerHour - 1000000"
    then have n2: "nsec \<le> 3600000000000 - 1000000" by (simp add: nsec_def nsPerHour_def)
    have p22: "(2::real) powi (- 22) = 1 / 4194304" by (simp add: power_int_minus field_simps)
    have e1: "1 - 2 powi (- 22) = real_of_int (2 ^ 22 - 1) * 2 powi (- 22)"
      by (simp add: p22)
    have "real_of_int nsec / (60 * 60 * 1000000000) \<le> 1 - 2 powi (- 22)"
      using n2 by (simp add: p22 field_simps)
    then have "f \<le> round64 (1 - 2 powi (- 22))"
      unfolding f_def by (rule round64_mono)
    also have "round64 (1 - 2 powi (- 22)) = 1 - 2 powi (- 22)"
      unfolding e1 by (rule round64_exact) simp_all
    finally have f2: "f \<le> 1 - 2 powi (- 22)" .
    have e2: "real_of_int hour + 1 - 2 powi (- 22)
        = real_of_int ((hour + 1) * 2 ^ 22 - 1) * 2 powi (- 22)"
      by (simp add: p22 field_simps)
    have "round64 (of_int hour + f) \<le> round64 (real_of_int hour + 1 - 2 powi (- 22))"
      using f2 by (intro round64_mono) simp
    also have "round64 (real_of_int hour + 1 - 2 powi (- 22))
        = real_of_int hour + 1 - 2 powi (- 22)"
      unfolding e2 using h0 h1 by (intro round64_exact) simp_all
    finally show "Hours d \<le> of_int (d div nsPerHour) + 1 - 2 powi (- 22)"
      by (simp add: H hour_def)
  }
qed

lemma days_hours:
  "d div nsPerDay = (d div nsPerHour) div 24"
  "0 \<le> d \<Longrightarrow> d mod nsPerDay \<le> nsPerDay - 1000000 \<Longrightarrow>
     (d div nsPerHour) mod 24 \<le> 22 \<or> d mod nsPerHour \<le> nsPerHour - 1000000"
proof -
  show "d div nsPerDay = (d div nsPerHour) div 24"
    by (simp add: nsPerDay_def nsPerHour_def div_mult2_eq)
  assume d: "0 \<le> d" and m: "d mod nsPerDay \<le> nsPerDay - 1000000"
  have "d mod nsPerDay = nsPerHour * ((d div nsPerHour) mod 24) + d mod nsPerHour"
    using zmod_zmult2_eq [of 24 d nsPerHour] by (simp add: nsPerDay_def nsPerHour_def)
  with m have "nsPerHour * ((d div nsPerHour) mod 24) + d mod nsPerHour \<le> nsPerDay - 1000000"
    by simp
  moreover have "(d div nsPerHour) mod 24 \<le> 23" by simp
  ultimately show "(d div nsPerHour) mod 24 \<le> 22 \<or> d mod nsPerHour \<le> nsPerHour - 1000000"
    by (auto simp: nsPerDay_def nsPerHour_def)
qed

lemma float64Days_bounds:
  assumes "0 \<le> d" and "d \<le> 2 ^ 63"
  shows "d div nsPerDay \<le> float64Days d" and "float64Days d \<le> d div nsPerDay + 1"
    and "d mod nsPerDay \<le> nsPerDay - 1000000 \<Longrightarrow> float64Days d = d div nsPerDay"
proof -
  define hour where "hour = d div nsPerHour"
  define k where "k = d div nsPerDay"
  have kh: "k = hour div 24" by (simp add: k_def hour_def days_hours(1))
  have h0: "0 \<le> hour" using assms(1) by (simp add: hour_def nsPerHour_def pos_imp_zdiv_nonneg_iff)
  have "hour \<le> 2 ^ 63 div nsPerHour" unfolding hour_def using assms(2)
    by (simp add: zdiv_mono1 nsPerHour_def)
  then have h1: "hour < 2 ^ 22" by (simp add: nsPerHour_def)
  have k0: "0 \<le> k" using h0 by (simp add: kh pos_imp_zdiv_nonneg_iff)
  have k1: "k < 2 ^ 18" using h1 by (simp add: kh)
  have lo24: "24 * k \<le> hour" and hi24: "hour \<le> 24 * k + 23"
    unfolding kh by presburger+
  note hb = Hours_bounds [OF assms, folded hour_def]
  define t where "t = round64 (Hours d / 24)"
  have rk: "round64 (of_int k) = of_int k" using k0 k1 by (intro round64_int) simp
  have rk1: "round64 (real_of_int k + 1) = real_of_int k + 1"
    using round64_int [of "k + 1"] k0 k1 by simp
  have "real_of_int k \<le> Hours d / 24" using hb(1) lo24 by simp
  then have "round64 (of_int k) \<le> t" unfolding t_def by (rule round64_mono)
  then have t0: "of_int k \<le> t" by (simp only: rk)
  have "Hours d / 24 \<le> real_of_int k + 1" using hb(2) hi24 by simp
  then have "t \<le> round64 (real_of_int k + 1)" unfolding t_def by (rule round64_mono)
  then have t1: "t \<le> of_int k + 1" by (simp only: rk1)
  have tr: "float64Days d = \<lfloor>t\<rfloor>"
    using t0 k0 by (simp add: float64Days_def truncInt_def t_def)
  from t0 have "k \<le> \<lfloor>t\<rfloor>" by linarith
  then show "d div nsPerDay \<le> float64Days d" by (simp add: tr k_def)
  from t1 have "\<lfloor>t\<rfloor> \<le> k + 1" by linarith
  then show "float64Days d \<le> d div nsPerDay + 1" by (simp add: tr k_def)
  {
    assume m: "d mod nsPerDay \<le> nsPerDay - 1000000"
    have p22: "(2::real) powi (- 22) = 1 / 4194304" by (simp add: power_int_minus field_simps)
    have p27: "(2::real) powi (- 27) = 1 / 134217728" by (simp add: power_int_minus field_simps)
    have "Hours d \<le> real_of_int (24 * k) + 24 - 2 powi (- 22)"
    proof -
      from days_hours(2) [OF assms(1) m]
      consider "hour mod 24 \<le> 22" | "d mod nsPerHour \<le> nsPerHour - 1000000"
        by (auto simp: hour_def)
      then show ?thesis
      proof cases
        case 1
        then have "hour \<le> 24 * k + 22" unfolding kh by presburger
        with hb(2) show ?thesis by (simp add: p22)
      next
        case 2
        from hb(3) [OF 2] hi24 show ?thesis by simp
      qed
    qed
    then have le27: "Hours d / 24 \<le> real_of_int k + 1 - 2 powi (- 27)"
      by (simp add: p22 p27 field_simps)
    have e3: "real_of_int k + 1 - 2 powi (- 27)
        = real_of_int ((k + 1) * 2 ^ 27 - 1) * 2 powi (- 27)"
      by (simp add: p27 field_simps)
    from le27 have "t \<le> round64 (real_of_int k + 1 - 2 powi (- 27))"
      unfolding t_def by (rule round64_mono)
    also have "round64 (real_of_int k + 1 - 2 powi (- 27))
        = real_of_int k + 1 - 2 powi (- 27)"
      unfolding e3 using k0 k1 by (intro round64_exact) simp_all
    finally have "t \<le> real_of_int k + 1 - 2 powi (- 27)" .
    then have "t < real_of_int k + 1" by (simp add: p27)
    with t0 have "\<lfloor>t\<rfloor> = k" by linarith
    then show "float64Days d = d div nsPerDay" by (simp add: tr k_def)
  }
qed

lemma Hours_edge: "Hours (1000 * nsPerDay - 1) = 24000"
proof -
  define f where "f = round64 (real_of_int 3599999999999 / (60 * 60 * 1000000000))"
  have q: "quoT (1000 * nsPerDay - 1) nsPerHour = 23999"
    by (simp add: quoT_def nsPerDay_def nsPerHour_def)
  have r: "remT (1000 * nsPerDay - 1) nsPerHour = 3599999999999"
    by (simp add: remT_def q) (simp add: nsPerDay_def nsPerHour_def)
  have fh: "float64 23999 = 23999" unfolding float64_def
    using round64_int [of 23999] by simp
  have fn: "float64 3599999999999 = 3599999999999" unfolding float64_def
    using round64_int [of 3599999999999] by simp
  have H: "Hours (1000 * nsPerDay - 1) = round64 (23999 + f)"
    by (simp add: Hours_def q r fh fn f_def Let_def)
  have p40: "(2::real) powi (- 40) = 1 / 1099511627776" by (simp add: power_int_minus field_simps)
  have p38: "(2::real) powi (- 38) = 1 / 274877906944" by (simp add: power_int_minus field_simps)
  have e1: "1 - 2 powi (- 40) = real_of_int (2 ^ 40 - 1) * 2 powi (- 40)"
    by (simp add: p40)
  have "round64 (1 - 2 powi (- 40)) = 1 - 2 powi (- 40)"
    unfolding e1 by (rule round64_exact) simp_all
  moreover have "round64 (1 - 2 powi (- 40)) \<le> f" unfolding f_def
    by (rule round64_mono) (simp add: p40)
  ultimately have f0: "1 - 2 powi (- 40) \<le> f" by simp
  have "f \<le> round64 1" unfolding f_def by (rule round64_mono) simp
  then have f1: "f \<le> 1" by (simp add: round64_one)
  define x where "x = (24000::real) - 2 powi (- 40)"
  have xv: "x = 24000 - 1 / 1099511627776" by (simp add: x_def p40)
  have b: "binade x = 14"
    by (rule binade_unique) (simp_all add: xv)
  have u: "ulpExp x = - 38" by (simp add: ulpExp_def b)
  have x0: "x \<noteq> 0" by (simp add: xv)
  have fl: "\<lfloor>x / 2 powi (- 38)\<rfloor> = 24000 * 2 ^ 38 - 1"
    by (simp add: xv p38 floor_eq_iff)
  have "roundHalfEven (x / 2 powi (- 38)) = 24000 * 2 ^ 38"
    unfolding roundHalfEven_def fl Let_def by (simp add: xv p38)
  then have rx: "round64 x = 24000"
    unfolding round64_at [OF x0 u] by (simp add: p38)
  have "round64 x \<le> round64 (23999 + f)" unfolding x_def using f0
    by (intro round64_mono) simp
  moreover have "round64 (23999 + f) \<le> round64 (of_int 24000)" using f1
    by (intro round64_mono) simp
  moreover have "round64 (of_int 24000) = 24000" using round64_int [of 24000] by simp
  ultimately show ?thesis by (simp add: H rx)
qed

lemma float64Days_edge: "float64Days (1000 * nsPerDay - 1) = 1000"
proof -
  have "round64 (of_int 1000) = 1000" using round64_int [of 1000] by simp
  then show ?thesis by (simp add: float64Days_def Hours_edge truncInt_def)
qed

lemma float64Days_neg:
  assumes "- (2 ^ 63) \<le> d" and "d < 0" and "(- d) mod nsPerDay \<le> nsPerDay - 1000000"
  shows "float64Days d = - ((- d) div nsPerDay)"
proof -
  have "float64Days (- d) = (- d) div nsPerDay"
    using assms by (intro float64Days_bounds(3)) simp_all
  with float64Days_minus [of "- d"] show ?thesis by simp
qed

lemma float64Days_nonpos:
  assumes "- (2 ^ 63) \<le> d" and "d \<le> 0"
  shows "float64Days d \<le> 0"
proof -
  have "(- d) div nsPerDay \<le> float64Days (- d)"
    using assms by (intro float64Days_bounds(1)) simp_all
  moreover have "0 \<le> (- d) div nsPerDay"
    using assms(2) by (simp add: nsPerDay_def pos_imp_zdiv_nonneg_iff)
  ultimately show ?thesis using float64Days_minus [of "- d"] by simp
qed

lemma float64Days_floor:
  assumes "- (2 ^ 63) \<le> d" and "d \<le> 2 ^ 63"
  shows "d div nsPerDay \<le> float64Days d" and "float64Days d \<le> d div nsPerDay + 1"
proof -
  have "d div nsPerDay \<le> float64Days d \<and> float64Days d \<le> d div nsPerDay + 1"
  proof (cases "0 \<le> d")
    case True
    with assms(2) float64Days_bounds(1,2) [of d] show ?thesis by simp
  next
    case False
    define e where "e = - d"
    have e: "0 \<le> e" "e \<le> 2 ^ 63" using False assms(1) by (simp_all add: e_def)
    have m: "float64Days d = - float64Days e"
      using float64Days_minus [of e] by (simp add: e_def)
    have q: "d div nsPerDay = (if e mod nsPerDay = 0 then - (e div nsPerDay)
                               else - (e div nsPerDay) - 1)"
      using zdiv_zminus1_eq_if [of nsPerDay e] by (simp add: e_def nsPerDay_def)
    show ?thesis
    proof (cases "e mod nsPerDay = 0")
      case True
      then have "e mod nsPerDay \<le> nsPerDay - 1000000" by (simp add: nsPerDay_def)
      with float64Days_bounds(3) [OF e] have "float64Days e = e div nsPerDay" by simp
      with m q True show ?thesis by simp
    next
      case False
      with float64Days_bounds(1,2) [OF e] m q show ?thesis by simp
    qed
  qed
  then show "d div nsPerDay \<le> float64Days d" and "float64Days d \<le> d div nsPerDay + 1"
    by simp_all
qed

lemma float64Days_saturated:
  "float64Days maxDuration = 106751" "float64Days minDuration = - 106751"
proof -
  have "float64Days (2 ^ 63 - 1) = (2 ^ 63 - 1) div nsPerDay"
    by (rule float64Days_bounds(3)) (simp_all add: nsPerDay_def)
  then show "float64Days maxDuration = 106751" by (simp add: maxDuration_def nsPerDay_def)
  have "float64Days (2 ^ 63) = 2 ^ 63 div nsPerDay"
    by (rule float64Days_bounds(3)) (simp_all add: nsPerDay_def)
  with float64Days_minus [of "2 ^ 63"] show "float64Days minDuration = - 106751"
    by (simp add: minDuration_def nsPerDay_def)
qed

section \<open>The sample platform evaluated\<close>

lemma sample_flags [simp]:
  "IsCurrent sampleMain" "\<not> IsCurrent sampleFeature" "\<not> IsCurrent sampleLocked"
  "\<not> IsMerged sampleMain" "IsMerged sampleFeature" "\<not> IsMerged sampleLocked"
  by (simp_all add: sampleMain_def sampleFeature_def sampleLocked_def branchWt_def zeroWorktree_def)

lemma sampleOld_days:
  "InactiveDays samplePlatform now sampleOld = float64Days (Since now 0)"
  by (simp add: InactiveDays_def IsZero_def zeroTime_def sampleOld_def branchWt_def
      samplePlatform_def)

lemma sample_days:
  "InactiveDays samplePlatform (10 * nsPerDay) sampleOld = 10"
  "InactiveDays samplePlatform (30 * nsPerDay + nsPerDay div 2) sampleOld = 30"
  "InactiveDays samplePlatform (45 * nsPerDay) sampleOld = 45"
proof -
  have "float64Days (10 * nsPerDay) = (10 * nsPerDay) div nsPerDay"
    by (rule float64Days_bounds(3)) (simp_all add: nsPerDay_def)
  then show "InactiveDays samplePlatform (10 * nsPerDay) sampleOld = 10"
    by (simp add: sampleOld_days Since_def maxDuration_def minDuration_def nsPerDay_def)
  have "float64Days (30 * nsPerDay + nsPerDay div 2)
      = (30 * nsPerDay + nsPerDay div 2) div nsPerDay"
    by (rule float64Days_bounds(3)) (simp_all add: nsPerDay_def)
  then show "InactiveDays samplePlatform (30 * nsPerDay + nsPerDay div 2) sampleOld = 30"
    by (simp add: sampleOld_days Since_def maxDuration_def minDuration_def nsPerDay_def)
  have "float64Days (45 * nsPerDay) = (45 * nsPerDay) div nsPerDay"
    by (rule float64Days_bounds(3)) (simp_all add: nsPerDay_def)
  then show "InactiveDays samplePlatform (45 * nsPerDay) sampleOld = 45"
    by (simp add: sampleOld_days Since_def maxDuration_def minDuration_def nsPerDay_def)
qed

lemma sample_days_off_floor:
  "InactiveDays samplePlatform (- (nsPerDay div 2)) sampleOld = 0"
  "InactiveDays samplePlatform (1000 * nsPerDay - 1) sampleOld = 1000"
  "InactiveDays samplePlatform (2 ^ 64) sampleOld = 106751"
proof -
  have "float64Days (- (nsPerDay div 2)) = - ((- (- (nsPerDay div 2))) div nsPerDay)"
    by (rule float64Days_neg) (simp_all add: nsPerDay_def)
  then show "InactiveDays samplePlatform (- (nsPerDay div 2)) sampleOld = 0"
    by (simp add: sampleOld_days Since_def maxDuration_def minDuration_def nsPerDay_def)
  have "Since (1000 * nsPerDay - 1) 0 = 1000 * nsPerDay - 1"
    by (simp add: Since_def maxDuration_def minDuration_def nsPerDay_def)
  then show "InactiveDays samplePlatform (1000 * nsPerDay - 1) sampleOld = 1000"
    by (simp only: sampleOld_days float64Days_edge)
  have "Since (2 ^ 64) 0 = maxDuration"
    by (simp add: Since_def maxDuration_def minDuration_def)
  then show "InactiveDays samplePlatform (2 ^ 64) sampleOld = 106751"
    by (simp only: sampleOld_days float64Days_saturated)
qed

lemma sample_spec_days:
  "inactiveDays_spec (- (nsPerDay div 2)) sampleOld = - 1"
  "inactiveDays_spec (1000 * nsPerDay - 1) sampleOld = 999"
  "inactiveDays_spec (2 ^ 64) sampleOld = 213503"
  by (simp_all add: inactiveDays_spec_def IsZero_def zeroTime_def sampleOld_def branchWt_def
      floor_divide_of_int_eq nsPerDay_def)

lemma sample_fmt: "fmtInt 30 = ''30''" "fmtInt 45 = ''45''"
  by (simp_all add: fmtInt_def digitsNat.simps)

lemma sampleOld_name: "BranchShort sampleOld = ''old''"
  by (simp add: sampleOld_def branchWt_def BranchShort_def TrimPrefix_def HasPrefix_def
      zeroWorktree_def)

section \<open>Classification\<close>

subsection \<open>Status text\<close>

lemma space_not_clean: "CHR '' '' \<in> set s \<Longrightarrow> s \<noteq> ''clean''"
  by auto

lemma StatusText_dirty_not_clean:
  assumes "\<not> IsBare w" and "\<not> IsClean w"
  shows "StatusText w \<noteq> ''clean''"
  using assms by (auto simp: StatusText_def Let_def intro!: space_not_clean)

lemma StatusText_clean_iff:
  "(StatusText w = ''clean'') = (\<not> IsBare w \<and> Modified w = 0 \<and> Untracked w = 0)"
proof (cases "IsBare w")
  case True
  then show ?thesis by (simp add: StatusText_def)
next
  case nb: False
  show ?thesis
  proof (cases "IsClean w")
    case True
    with nb show ?thesis by (simp add: StatusText_def IsClean_def)
  next
    case False
    with nb StatusText_dirty_not_clean [of w] show ?thesis by (simp add: IsClean_def)
  qed
qed

text \<open>
  C5, as the claim states it, fails on a bare record: \<open>Worktree{IsBare: true}\<close> has both
  counts at zero and its status text is \<open>bare\<close>, not \<open>clean\<close>.
\<close>

theorem StatusText_bare_counterexample:
  "Modified (zeroWorktree\<lparr>IsBare := True\<rparr>) = 0
   \<and> Untracked (zeroWorktree\<lparr>IsBare := True\<rparr>) = 0
   \<and> StatusText (zeroWorktree\<lparr>IsBare := True\<rparr>) = ''bare''
   \<and> \<not> ((StatusText (zeroWorktree\<lparr>IsBare := True\<rparr>) = ''clean'')
          = (Modified (zeroWorktree\<lparr>IsBare := True\<rparr>) = 0
             \<and> Untracked (zeroWorktree\<lparr>IsBare := True\<rparr>) = 0))"
  by (simp add: StatusText_def zeroWorktree_def)

text \<open>
  C5, amended. For every record, \<open>StatusText\<close> returns \<open>clean\<close> iff the record is not
  bare and both counts are zero (so a record with a nonzero count never yields
  \<open>clean\<close>); a bare record yields \<open>bare\<close>; a record that is neither bare nor clean
  yields the list of \<open><n> modified\<close> (only if the modified count is positive) and
  \<open><n> untracked\<close> (only if the untracked count is positive), in that order, joined
  by a comma and a space.
\<close>

theorem StatusText_classification:
  "(StatusText w = ''clean'') = (\<not> IsBare w \<and> Modified w = 0 \<and> Untracked w = 0)
   \<and> (IsBare w \<longrightarrow> StatusText w = ''bare'')
   \<and> (\<not> IsBare w \<and> \<not> (Modified w = 0 \<and> Untracked w = 0) \<longrightarrow>
        StatusText w =
          Join ((if Modified w > 0 then [fmtInt (Modified w) @ '' modified''] else [])
                @ (if Untracked w > 0 then [fmtInt (Untracked w) @ '' untracked''] else []))
               '', '')"
proof (intro conjI impI)
  show "(StatusText w = ''clean'') = (\<not> IsBare w \<and> Modified w = 0 \<and> Untracked w = 0)"
    by (rule StatusText_clean_iff)
next
  assume "IsBare w"
  then show "StatusText w = ''bare''" by (simp add: StatusText_def)
next
  assume "\<not> IsBare w \<and> \<not> (Modified w = 0 \<and> Untracked w = 0)"
  then show "StatusText w =
      Join ((if Modified w > 0 then [fmtInt (Modified w) @ '' modified''] else [])
            @ (if Untracked w > 0 then [fmtInt (Untracked w) @ '' untracked''] else []))
           '', ''"
    by (simp add: StatusText_def IsClean_def Let_def)
qed

theorem StatusText_classification_witness:
  "\<not> IsBare (zeroWorktree\<lparr>Modified := 3, Untracked := 1\<rparr>)
   \<and> StatusText (zeroWorktree\<lparr>Modified := 3, Untracked := 1\<rparr>) \<noteq> ''clean''
   \<and> StatusText (zeroWorktree\<lparr>Modified := 3, Untracked := 1\<rparr>) = ''3 modified, 1 untracked''
   \<and> IsBare (zeroWorktree\<lparr>IsBare := True, Modified := 3\<rparr>)
   \<and> StatusText (zeroWorktree\<lparr>IsBare := True, Modified := 3\<rparr>) = ''bare''"
  using StatusText_classification [of "zeroWorktree\<lparr>Modified := 3, Untracked := 1\<rparr>"]
    StatusText_classification [of "zeroWorktree\<lparr>IsBare := True, Modified := 3\<rparr>"]
  by (simp add: zeroWorktree_def fmtInt_def digitsNat.simps)

subsection \<open>Staleness\<close>

text \<open>
  C6, as the claim states it, fails in two places. The clean command does not apply the
  strict rule: a worktree whose last commit lies thirty and a half days back has 30
  inactive days; under \<open>--stale 30\<close> the rule of the claim (strictly more than the
  threshold) does not flag it, the filter of \<open>runClean\<close>
  (\<open>InactiveDays() >= staleDays\<close>) does, with the reason \<open>30d inactive\<close>. And the
  inactive days are not always the quotient rounded down: for a last commit twelve hours
  after the clock reading the code returns 0, not -1 (the conversion to \<open>int\<close> drops
  the fraction); one nanosecond before the thousandth day is complete it returns 1000,
  not 999 (the hours are rounded to 24000 in binary64); and \<open>2 ^ 64\<close> nanoseconds
  after the last commit it returns 106751, not 213503 (\<open>time.Since\<close> saturates).
\<close>

theorem staleness_claim_counterexample:
  "InactiveDays samplePlatform (30 * nsPerDay + nsPerDay div 2) sampleOld = 30
   \<and> \<not> isStale_spec samplePlatform (30 * nsPerDay + nsPerDay div 2) sampleOld 30
   \<and> cleanStaleTest samplePlatform (30 * nsPerDay + nsPerDay div 2) staleFlag30 30 sampleOld
   \<and> cleanCandidate samplePlatform (30 * nsPerDay + nsPerDay div 2)
         (30 * nsPerDay + nsPerDay div 2) staleFlag30 30 ''main'' sampleOld
       = Some (sampleOld, ''30d inactive'')
   \<and> InactiveDays samplePlatform (- (nsPerDay div 2)) sampleOld = 0
   \<and> inactiveDays_spec (- (nsPerDay div 2)) sampleOld = - 1
   \<and> InactiveDays samplePlatform (1000 * nsPerDay - 1) sampleOld = 1000
   \<and> inactiveDays_spec (1000 * nsPerDay - 1) sampleOld = 999
   \<and> InactiveDays samplePlatform (2 ^ 64) sampleOld = 106751
   \<and> inactiveDays_spec (2 ^ 64) sampleOld = 213503"
proof -
  have f: "\<not> IsBare sampleOld" "\<not> IsCurrent sampleOld" "\<not> IsMerged sampleOld"
    by (simp_all add: sampleOld_def branchWt_def zeroWorktree_def)
  have e: "effectiveStaleDays staleFlag30 30 = 30" "\<not> cleanMerged staleFlag30"
    "hasExplicitFlags staleFlag30" "cleanStaleDays staleFlag30 = 30"
    by (simp_all add: effectiveStaleDays_def hasExplicitFlags_def staleFlag30_def)
  have "InactiveDays samplePlatform (30 * nsPerDay + nsPerDay div 2) sampleOld = 30
   \<and> \<not> isStale_spec samplePlatform (30 * nsPerDay + nsPerDay div 2) sampleOld 30
   \<and> cleanStaleTest samplePlatform (30 * nsPerDay + nsPerDay div 2) staleFlag30 30 sampleOld
   \<and> cleanCandidate samplePlatform (30 * nsPerDay + nsPerDay div 2)
         (30 * nsPerDay + nsPerDay div 2) staleFlag30 30 ''main'' sampleOld
       = Some (sampleOld, ''30d inactive'')"
    by (simp add: sample_days sample_fmt sampleOld_name f e isStale_spec_def cleanStaleTest_def
        cleanCandidate_def cleanReasons_def Let_def)
  with sample_days_off_floor sample_spec_days show ?thesis by (simp only: simp_thms)
qed

lemma cleanStaleTest_iff:
  "cleanStaleTest sys now fl cfg wt =
     (effectiveStaleDays fl cfg > 0 \<and> InactiveDays sys now wt \<ge> effectiveStaleDays fl cfg)"
  by (auto simp: cleanStaleTest_def effectiveStaleDays_def hasExplicitFlags_def Let_def)

lemma cleanReasons_stale:
  "cleanReasons sys now now' fl cfg wt =
     (if (if hasExplicitFlags fl then cleanMerged fl \<and> IsMerged wt else IsMerged wt)
      then [''merged''] else [])
     @ (if cleanStaleTest sys now fl cfg wt
        then [fmtInt (InactiveDays sys now' wt) @ ''d inactive''] else [])"
  by (simp add: cleanReasons_def cleanStaleTest_def Let_def)

lemma BuildTags_stale_tag:
  "BuildTags sys now wt
     = joinTags sys (tagsBeforeStale sys wt
         @ (if InactiveDays sys now wt > 30
            then [Render sys staleStyle (fmtInt (InactiveDays sys now wt) @ ''d stale'')]
            else []))"
  by (simp add: BuildTags_def joinTags_def tagsBeforeStale_def Let_def)

lemma cleanCandidate_reasons:
  "cleanCandidate sys now now' fl cfg defaultBranch wt
     = (if IsBare wt \<or> IsCurrent wt \<or> BranchShort wt = defaultBranch then None
        else
          (let reasons =
             (if (if hasExplicitFlags fl then cleanMerged fl \<and> IsMerged wt else IsMerged wt)
              then [''merged''] else [])
             @ (if effectiveStaleDays fl cfg > 0
                   \<and> InactiveDays sys now wt \<ge> effectiveStaleDays fl cfg
                then [fmtInt (InactiveDays sys now' wt) @ ''d inactive''] else [])
           in if reasons = [] then None else Some (wt, Join reasons '', '')))"
  by (simp add: cleanCandidate_def cleanReasons_stale cleanStaleTest_iff Let_def)

lemma merged_no_inactive: "\<not> suffix ''d inactive'' ''merged''"
  by (simp add: suffix_to_prefix)

lemma cleanCandidate_inactive_iff:
  "(\<exists>r. cleanCandidate sys now now' fl cfg defaultBranch wt = Some (wt, r)
         \<and> suffix ''d inactive'' r)
     = (\<not> IsBare wt \<and> \<not> IsCurrent wt \<and> BranchShort wt \<noteq> defaultBranch
        \<and> effectiveStaleDays fl cfg > 0
        \<and> InactiveDays sys now wt \<ge> effectiveStaleDays fl cfg)"
proof (cases "IsBare wt \<or> IsCurrent wt \<or> BranchShort wt = defaultBranch")
  case True
  then show ?thesis by (auto simp: cleanCandidate_reasons)
next
  case skip: False
  define mg where "mg = (if hasExplicitFlags fl then cleanMerged fl \<and> IsMerged wt else IsMerged wt)"
  define st where "st = (effectiveStaleDays fl cfg > 0
      \<and> InactiveDays sys now wt \<ge> effectiveStaleDays fl cfg)"
  define a where "a = fmtInt (InactiveDays sys now' wt)"
  have c: "cleanCandidate sys now now' fl cfg defaultBranch wt
      = (if st then Some (wt, if mg then ''merged'' @ '', '' @ a @ ''d inactive''
                              else a @ ''d inactive'')
         else if mg then Some (wt, ''merged'') else None)"
    using skip unfolding cleanCandidate_reasons mg_def [symmetric] st_def [symmetric]
      a_def [symmetric]
    by (simp add: Let_def)
  have s1: "suffix ''d inactive'' (a @ ''d inactive'')" by (rule suffix_appendI) simp
  have s2: "suffix ''d inactive'' (''merged'' @ '', '' @ a @ ''d inactive'')"
    by (intro suffix_appendI) simp
  have "(\<exists>r. cleanCandidate sys now now' fl cfg defaultBranch wt = Some (wt, r)
         \<and> suffix ''d inactive'' r) = st"
  proof (cases st)
    case True
    with s1 s2 show ?thesis unfolding c by (cases mg) simp_all
  next
    case False
    with merged_no_inactive show ?thesis unfolding c by (cases mg) simp_all
  qed
  with skip show ?thesis by (simp add: st_def)
qed

lemma effectiveStaleDays_flags:
  "effectiveStaleDays fl cfg
     = (if cleanMerged fl \<or> cleanStaleDays fl > 0 then cleanStaleDays fl else cfg)"
  by (simp add: effectiveStaleDays_def hasExplicitFlags_def)

lemma unset_never_stale:
  "IsZero (LastCommit wt) \<longrightarrow>
     InactiveDays sys now wt = 0
     \<and> BuildTags sys now wt = joinTags sys (tagsBeforeStale sys wt)
     \<and> \<not> (\<exists>r. cleanCandidate sys now now' fl cfg defaultBranch wt = Some (wt, r)
              \<and> suffix ''d inactive'' r)"
proof
  assume "IsZero (LastCommit wt)"
  then have d: "InactiveDays sys now wt = 0" by (simp add: InactiveDays_def)
  have t: "BuildTags sys now wt = joinTags sys (tagsBeforeStale sys wt)"
    unfolding BuildTags_stale_tag d by simp
  have c: "\<not> (\<exists>r. cleanCandidate sys now now' fl cfg defaultBranch wt = Some (wt, r)
              \<and> suffix ''d inactive'' r)"
    unfolding cleanCandidate_inactive_iff d by simp
  from d t c show "InactiveDays sys now wt = 0
     \<and> BuildTags sys now wt = joinTags sys (tagsBeforeStale sys wt)
     \<and> \<not> (\<exists>r. cleanCandidate sys now now' fl cfg defaultBranch wt = Some (wt, r)
              \<and> suffix ''d inactive'' r)"
    by (intro conjI)
qed

lemma Since_cases:
  "minDuration \<le> now - t \<Longrightarrow> now - t \<le> maxDuration \<Longrightarrow> Since now t = now - t"
  "maxDuration < now - t \<Longrightarrow> Since now t = maxDuration"
  "now - t < minDuration \<Longrightarrow> Since now t = minDuration"
  by (simp_all add: Since_def Let_def maxDuration_def minDuration_def)

lemma InactiveDays_binary64:
  "\<not> IsZero (LastCommit wt) \<and> daysOfDuration sys = float64Days \<longrightarrow>
     (minDuration \<le> now - LastCommit wt \<and> now - LastCommit wt \<le> maxDuration \<longrightarrow>
        inactiveDays_spec now wt \<le> InactiveDays sys now wt
        \<and> InactiveDays sys now wt \<le> inactiveDays_spec now wt + 1)
     \<and> (0 \<le> now - LastCommit wt \<and> now - LastCommit wt \<le> maxDuration
        \<and> (now - LastCommit wt) mod nsPerDay \<le> nsPerDay - 1000000 \<longrightarrow>
        InactiveDays sys now wt = inactiveDays_spec now wt)
     \<and> (minDuration \<le> now - LastCommit wt \<and> now - LastCommit wt < 0
        \<and> (LastCommit wt - now) mod nsPerDay \<le> nsPerDay - 1000000 \<longrightarrow>
        InactiveDays sys now wt = - ((LastCommit wt - now) div nsPerDay))
     \<and> (now - LastCommit wt < 0 \<longrightarrow> InactiveDays sys now wt \<le> 0)
     \<and> (maxDuration < now - LastCommit wt \<longrightarrow> InactiveDays sys now wt = 106751)
     \<and> (now - LastCommit wt < minDuration \<longrightarrow> InactiveDays sys now wt = - 106751)"
proof (intro impI, elim conjE)
  assume nz: "\<not> IsZero (LastCommit wt)" and go: "daysOfDuration sys = float64Days"
  define e where "e = now - LastCommit wt"
  have days: "InactiveDays sys now wt = float64Days (Since now (LastCommit wt))"
    using nz go by (simp add: InactiveDays_def)
  have spec: "inactiveDays_spec now wt = e div nsPerDay"
    unfolding inactiveDays_spec_def e_def using nz
    by (simp only: if_False floor_divide_of_int_eq)
  note S = Since_cases [of now "LastCommit wt", folded e_def]
  have 1: "minDuration \<le> e \<and> e \<le> maxDuration \<longrightarrow>
        inactiveDays_spec now wt \<le> InactiveDays sys now wt
        \<and> InactiveDays sys now wt \<le> inactiveDays_spec now wt + 1"
  proof (intro impI, elim conjE)
    assume r: "minDuration \<le> e" "e \<le> maxDuration"
    then have "- (2 ^ 63) \<le> e" "e \<le> 2 ^ 63" by (simp_all add: minDuration_def maxDuration_def)
    from float64Days_floor [OF this] show "inactiveDays_spec now wt \<le> InactiveDays sys now wt
        \<and> InactiveDays sys now wt \<le> inactiveDays_spec now wt + 1"
      by (simp add: days spec S(1) [OF r])
  qed
  have 2: "0 \<le> e \<and> e \<le> maxDuration \<and> e mod nsPerDay \<le> nsPerDay - 1000000 \<longrightarrow>
        InactiveDays sys now wt = inactiveDays_spec now wt"
  proof (intro impI, elim conjE)
    assume r: "0 \<le> e" "e \<le> maxDuration" and m: "e mod nsPerDay \<le> nsPerDay - 1000000"
    from r have "minDuration \<le> e" by (simp add: minDuration_def)
    from S(1) [OF this r(2)] have s: "Since now (LastCommit wt) = e" .
    from r have "e \<le> 2 ^ 63" by (simp add: maxDuration_def)
    from float64Days_bounds(3) [OF r(1) this m]
    show "InactiveDays sys now wt = inactiveDays_spec now wt" by (simp add: days spec s)
  qed
  have 3: "minDuration \<le> e \<and> e < 0 \<and> (- e) mod nsPerDay \<le> nsPerDay - 1000000 \<longrightarrow>
        InactiveDays sys now wt = - ((- e) div nsPerDay)"
  proof (intro impI, elim conjE)
    assume r: "minDuration \<le> e" "e < 0" and m: "(- e) mod nsPerDay \<le> nsPerDay - 1000000"
    from r have "e \<le> maxDuration" by (simp add: maxDuration_def)
    from S(1) [OF r(1) this] have s: "Since now (LastCommit wt) = e" .
    from r have "- (2 ^ 63) \<le> e" by (simp add: minDuration_def)
    from float64Days_neg [OF this r(2) m]
    show "InactiveDays sys now wt = - ((- e) div nsPerDay)" by (simp add: days s)
  qed
  have 4: "e < 0 \<longrightarrow> InactiveDays sys now wt \<le> 0"
  proof
    assume r: "e < 0"
    show "InactiveDays sys now wt \<le> 0"
    proof (cases "minDuration \<le> e")
      case True
      from r have "e \<le> maxDuration" by (simp add: maxDuration_def)
      from S(1) [OF True this] have s: "Since now (LastCommit wt) = e" .
      from True have "- (2 ^ 63) \<le> e" by (simp add: minDuration_def)
      from float64Days_nonpos [OF this] r show ?thesis by (simp add: days s)
    next
      case False
      then have "Since now (LastCommit wt) = minDuration" by (intro S(3)) simp
      then show ?thesis by (simp add: days float64Days_saturated)
    qed
  qed
  have 5: "maxDuration < e \<longrightarrow> InactiveDays sys now wt = 106751"
    by (simp add: days S(2) float64Days_saturated)
  have 6: "e < minDuration \<longrightarrow> InactiveDays sys now wt = - 106751"
    by (simp add: days S(3) float64Days_saturated)
  have me: "LastCommit wt - now = - e" by (simp add: e_def)
  from 1 2 3 4 5 6 show "(minDuration \<le> now - LastCommit wt \<and> now - LastCommit wt \<le> maxDuration \<longrightarrow>
        inactiveDays_spec now wt \<le> InactiveDays sys now wt
        \<and> InactiveDays sys now wt \<le> inactiveDays_spec now wt + 1)
     \<and> (0 \<le> now - LastCommit wt \<and> now - LastCommit wt \<le> maxDuration
        \<and> (now - LastCommit wt) mod nsPerDay \<le> nsPerDay - 1000000 \<longrightarrow>
        InactiveDays sys now wt = inactiveDays_spec now wt)
     \<and> (minDuration \<le> now - LastCommit wt \<and> now - LastCommit wt < 0
        \<and> (LastCommit wt - now) mod nsPerDay \<le> nsPerDay - 1000000 \<longrightarrow>
        InactiveDays sys now wt = - ((LastCommit wt - now) div nsPerDay))
     \<and> (now - LastCommit wt < 0 \<longrightarrow> InactiveDays sys now wt \<le> 0)
     \<and> (maxDuration < now - LastCommit wt \<longrightarrow> InactiveDays sys now wt = 106751)
     \<and> (now - LastCommit wt < minDuration \<longrightarrow> InactiveDays sys now wt = - 106751)"
    unfolding me e_def [symmetric] by (intro conjI)
qed

text \<open>
  C6, amended. The tag assembly applies the strict rule with its fixed threshold: the tag
  \<open><n>d stale\<close> is appended, last, iff the inactive days exceed 30. The clean command
  applies another rule: a worktree becomes a candidate with the reason \<open><n>d inactive\<close>
  iff it is not bare, not the current one, not on the default branch, the threshold is
  positive and the inactive days reach it (at least, not strictly more); the threshold
  is the \<open>--stale\<close> flag when \<open>--merged\<close> or a positive \<open>--stale\<close> is given and the
  configured number of days otherwise. The inactive days are 0 when the last commit time
  is unset, so such a worktree gets neither the tag nor the reason. Otherwise they are
  \<open>int(time.Since(t).Hours() / 24)\<close>. On a platform with Go's binary64 arithmetic
  (\<open>daysOfDuration = float64Days\<close>), and with \<open>e\<close> the time from the last commit to
  the clock reading, in nanoseconds:

  \<^item> when \<open>e\<close> is in the range of \<open>time.Duration\<close>, they are the quotient of \<open>e\<close> by a
    day rounded down, or one more;
  \<^item> when moreover \<open>e\<close> is not negative and lies at most a day less a millisecond after
    a whole number of days, they are the quotient rounded down;
  \<^item> when \<open>e\<close> is negative they are never positive, and when moreover \<open>e\<close> is in the
    range of \<open>time.Duration\<close> and \<open>- e\<close> lies at most a day less a millisecond after a
    whole number of days, they are the quotient rounded towards zero;
  \<^item> when \<open>e\<close> is beyond the range of \<open>time.Duration\<close>, they are 106751 or -106751.
\<close>

theorem staleness_rules:
  "BuildTags sys now wt
     = joinTags sys (tagsBeforeStale sys wt
         @ (if InactiveDays sys now wt > 30
            then [Render sys staleStyle (fmtInt (InactiveDays sys now wt) @ ''d stale'')]
            else []))
   \<and> cleanCandidate sys now now' fl cfg defaultBranch wt
     = (if IsBare wt \<or> IsCurrent wt \<or> BranchShort wt = defaultBranch then None
        else
          (let reasons =
             (if (if hasExplicitFlags fl then cleanMerged fl \<and> IsMerged wt else IsMerged wt)
              then [''merged''] else [])
             @ (if effectiveStaleDays fl cfg > 0
                   \<and> InactiveDays sys now wt \<ge> effectiveStaleDays fl cfg
                then [fmtInt (InactiveDays sys now' wt) @ ''d inactive''] else [])
           in if reasons = [] then None else Some (wt, Join reasons '', '')))
   \<and> (\<exists>r. cleanCandidate sys now now' fl cfg defaultBranch wt = Some (wt, r)
          \<and> suffix ''d inactive'' r)
     = (\<not> IsBare wt \<and> \<not> IsCurrent wt \<and> BranchShort wt \<noteq> defaultBranch
        \<and> effectiveStaleDays fl cfg > 0
        \<and> InactiveDays sys now wt \<ge> effectiveStaleDays fl cfg)
   \<and> effectiveStaleDays fl cfg
     = (if cleanMerged fl \<or> cleanStaleDays fl > 0 then cleanStaleDays fl else cfg)
   \<and> (IsZero (LastCommit wt) \<longrightarrow>
        InactiveDays sys now wt = 0
        \<and> BuildTags sys now wt = joinTags sys (tagsBeforeStale sys wt)
        \<and> \<not> (\<exists>r. cleanCandidate sys now now' fl cfg defaultBranch wt = Some (wt, r)
                 \<and> suffix ''d inactive'' r))
   \<and> (\<not> IsZero (LastCommit wt) \<and> daysOfDuration sys = float64Days \<longrightarrow>
        (minDuration \<le> now - LastCommit wt \<and> now - LastCommit wt \<le> maxDuration \<longrightarrow>
           inactiveDays_spec now wt \<le> InactiveDays sys now wt
           \<and> InactiveDays sys now wt \<le> inactiveDays_spec now wt + 1)
        \<and> (0 \<le> now - LastCommit wt \<and> now - LastCommit wt \<le> maxDuration
           \<and> (now - LastCommit wt) mod nsPerDay \<le> nsPerDay - 1000000 \<longrightarrow>
           InactiveDays sys now wt = inactiveDays_spec now wt)
        \<and> (minDuration \<le> now - LastCommit wt \<and> now - LastCommit wt < 0
           \<and> (LastCommit wt - now) mod nsPerDay \<le> nsPerDay - 1000000 \<longrightarrow>
           InactiveDays sys now wt = - ((LastCommit wt - now) div nsPerDay))
        \<and> (now - LastCommit wt < 0 \<longrightarrow> InactiveDays sys now wt \<le> 0)
        \<and> (maxDuration < now - LastCommit wt \<longrightarrow> InactiveDays sys now wt = 106751)
        \<and> (now - LastCommit wt < minDuration \<longrightarrow> InactiveDays sys now wt = - 106751))"
  by (intro conjI)
    (rule BuildTags_stale_tag, rule cleanCandidate_reasons, rule cleanCandidate_inactive_iff,
      rule effectiveStaleDays_flags, rule unset_never_stale, rule InactiveDays_binary64)

theorem staleness_rules_witness:
  "IsZero (LastCommit zeroWorktree)
   \<and> InactiveDays samplePlatform (45 * nsPerDay) zeroWorktree = 0
   \<and> BuildTags samplePlatform (45 * nsPerDay) zeroWorktree = []
   \<and> cleanCandidate samplePlatform (45 * nsPerDay) (45 * nsPerDay) staleFlag30 30 ''main''
        zeroWorktree = None
   \<and> \<not> IsZero (LastCommit sampleOld)
   \<and> daysOfDuration samplePlatform = float64Days
   \<and> InactiveDays samplePlatform (45 * nsPerDay) sampleOld
       = inactiveDays_spec (45 * nsPerDay) sampleOld
   \<and> inactiveDays_spec (45 * nsPerDay) sampleOld = 45
   \<and> BuildTags samplePlatform (45 * nsPerDay) sampleOld = ''[45d stale]''
   \<and> cleanCandidate samplePlatform (45 * nsPerDay) (45 * nsPerDay) staleFlag30 30 ''main''
        sampleOld = Some (sampleOld, ''45d inactive'')
   \<and> (\<exists>r. cleanCandidate samplePlatform (45 * nsPerDay) (45 * nsPerDay) staleFlag30 30
              ''main'' sampleOld = Some (sampleOld, r) \<and> suffix ''d inactive'' r)
   \<and> effectiveStaleDays staleFlag30 30 = 30
   \<and> BuildTags samplePlatform (30 * nsPerDay + nsPerDay div 2) sampleOld = []
   \<and> InactiveDays samplePlatform (- (nsPerDay div 2)) sampleOld = 0
   \<and> InactiveDays samplePlatform (- 1) sampleOld \<le> 0
   \<and> inactiveDays_spec (1000 * nsPerDay - 1) sampleOld
       \<le> InactiveDays samplePlatform (1000 * nsPerDay - 1) sampleOld
   \<and> InactiveDays samplePlatform (1000 * nsPerDay - 1) sampleOld
       \<le> inactiveDays_spec (1000 * nsPerDay - 1) sampleOld + 1
   \<and> InactiveDays samplePlatform (2 ^ 64) sampleOld = 106751
   \<and> InactiveDays samplePlatform (- (2 ^ 64)) sampleOld = - 106751"
proof -
  have z: "IsZero (LastCommit zeroWorktree)"
    by (simp add: IsZero_def zeroWorktree_def)
  have nz: "\<not> IsZero (LastCommit sampleOld)"
    by (simp add: IsZero_def sampleOld_def zeroTime_def)
  have go: "daysOfDuration samplePlatform = float64Days"
    by (simp add: samplePlatform_def)
  have t0: "LastCommit sampleOld = 0" by (simp add: sampleOld_def)
  have fz: "\<not> IsBare zeroWorktree" "\<not> IsCurrent zeroWorktree" "\<not> IsMerged zeroWorktree"
    "BranchShort zeroWorktree \<noteq> ''main''"
    by (simp_all add: zeroWorktree_def BranchShort_def TrimPrefix_def HasPrefix_def)
  have fo: "\<not> IsBare sampleOld" "\<not> IsCurrent sampleOld" "\<not> IsMerged sampleOld"
    by (simp_all add: sampleOld_def branchWt_def zeroWorktree_def)
  have e: "effectiveStaleDays staleFlag30 30 = 30" "\<not> cleanMerged staleFlag30"
    "hasExplicitFlags staleFlag30"
    by (simp_all add: effectiveStaleDays_def hasExplicitFlags_def staleFlag30_def)
  have tz: "tagsBeforeStale samplePlatform zeroWorktree = []"
    by (simp add: tagsBeforeStale_def Let_def zeroWorktree_def IsClean_def SyncText_def)
  have tS: "tagsBeforeStale samplePlatform sampleOld = []"
    by (simp add: tagsBeforeStale_def Let_def sampleOld_def branchWt_def zeroWorktree_def
        IsClean_def SyncText_def)
  have r: "Render samplePlatform = (\<lambda>st s. s)" by (simp add: samplePlatform_def)
  have sp: "inactiveDays_spec (45 * nsPerDay) sampleOld = 45"
    by (simp add: inactiveDays_spec_def IsZero_def zeroTime_def t0 nsPerDay_def)
  note unset = staleness_rules [where sys = samplePlatform and now = "45 * nsPerDay"
      and now' = "45 * nsPerDay" and fl = staleFlag30 and cfg = 30 and defaultBranch = "''main''"
      and wt = zeroWorktree]
  note unsetZ = unset [THEN conjunct2, THEN conjunct2, THEN conjunct2, THEN conjunct2,
      THEN conjunct1, rule_format, OF z]
  have u1: "InactiveDays samplePlatform (45 * nsPerDay) zeroWorktree = 0"
    by (rule unsetZ [THEN conjunct1])
  have u2: "BuildTags samplePlatform (45 * nsPerDay) zeroWorktree = []"
    using unsetZ [THEN conjunct2, THEN conjunct1] by (simp add: tz joinTags_def)
  have u3: "cleanCandidate samplePlatform (45 * nsPerDay) (45 * nsPerDay) staleFlag30 30 ''main''
        zeroWorktree = None"
    using unset [THEN conjunct2, THEN conjunct1] by (simp add: u1 fz e)
  note old = staleness_rules [where sys = samplePlatform and now = "45 * nsPerDay"
      and now' = "45 * nsPerDay" and fl = staleFlag30 and cfg = 30 and defaultBranch = "''main''"
      and wt = sampleOld]
  note oldN = old [THEN conjunct2, THEN conjunct2, THEN conjunct2, THEN conjunct2,
      THEN conjunct2, rule_format, OF conjI, OF nz go]
  have o1: "InactiveDays samplePlatform (45 * nsPerDay) sampleOld
       = inactiveDays_spec (45 * nsPerDay) sampleOld"
    using oldN [THEN conjunct2, THEN conjunct1]
    by (simp add: t0 maxDuration_def nsPerDay_def)
  have o2: "BuildTags samplePlatform (45 * nsPerDay) sampleOld = ''[45d stale]''"
    using old [THEN conjunct1] by (simp add: o1 sp tS r joinTags_def sample_fmt)
  have o3: "cleanCandidate samplePlatform (45 * nsPerDay) (45 * nsPerDay) staleFlag30 30 ''main''
        sampleOld = Some (sampleOld, ''45d inactive'')"
    using old [THEN conjunct2, THEN conjunct1]
    by (simp add: o1 sp fo e sampleOld_name sample_fmt)
  have o4: "\<exists>r. cleanCandidate samplePlatform (45 * nsPerDay) (45 * nsPerDay) staleFlag30 30
              ''main'' sampleOld = Some (sampleOld, r) \<and> suffix ''d inactive'' r"
    unfolding old [THEN conjunct2, THEN conjunct2, THEN conjunct1]
    by (simp add: o1 sp fo e sampleOld_name)
  have o5: "effectiveStaleDays staleFlag30 30 = 30"
    using old [THEN conjunct2, THEN conjunct2, THEN conjunct2, THEN conjunct1]
    by (simp add: staleFlag30_def)
  note half = staleness_rules [where sys = samplePlatform
      and now = "30 * nsPerDay + nsPerDay div 2" and wt = sampleOld]
  have h1: "BuildTags samplePlatform (30 * nsPerDay + nsPerDay div 2) sampleOld = []"
    using half [THEN conjunct1] by (simp add: sample_days tS joinTags_def)
  note before = staleness_rules [where sys = samplePlatform and now = "- (nsPerDay div 2)"
      and wt = sampleOld, THEN conjunct2, THEN conjunct2, THEN conjunct2, THEN conjunct2,
      THEN conjunct2, rule_format, OF conjI, OF nz go]
  have b1: "InactiveDays samplePlatform (- (nsPerDay div 2)) sampleOld = 0"
    using before [THEN conjunct2, THEN conjunct2, THEN conjunct1]
    by (simp add: t0 minDuration_def nsPerDay_def)
  note just = staleness_rules [where sys = samplePlatform and now = "- 1"
      and wt = sampleOld, THEN conjunct2, THEN conjunct2, THEN conjunct2, THEN conjunct2,
      THEN conjunct2, rule_format, OF conjI, OF nz go]
  have b2: "InactiveDays samplePlatform (- 1) sampleOld \<le> 0"
    using just [THEN conjunct2, THEN conjunct2, THEN conjunct2, THEN conjunct1]
    by (simp add: t0)
  note edge = staleness_rules [where sys = samplePlatform and now = "1000 * nsPerDay - 1"
      and wt = sampleOld, THEN conjunct2, THEN conjunct2, THEN conjunct2, THEN conjunct2,
      THEN conjunct2, rule_format, OF conjI, OF nz go]
  have g1: "inactiveDays_spec (1000 * nsPerDay - 1) sampleOld
       \<le> InactiveDays samplePlatform (1000 * nsPerDay - 1) sampleOld
     \<and> InactiveDays samplePlatform (1000 * nsPerDay - 1) sampleOld
       \<le> inactiveDays_spec (1000 * nsPerDay - 1) sampleOld + 1"
    using edge [THEN conjunct1]
    by (simp add: t0 minDuration_def maxDuration_def nsPerDay_def)
  note far = staleness_rules [where sys = samplePlatform and now = "2 ^ 64"
      and wt = sampleOld, THEN conjunct2, THEN conjunct2, THEN conjunct2, THEN conjunct2,
      THEN conjunct2, rule_format, OF conjI, OF nz go]
  have s1: "InactiveDays samplePlatform (2 ^ 64) sampleOld = 106751"
    using far [THEN conjunct2, THEN conjunct2, THEN conjunct2, THEN conjunct2, THEN conjunct1]
    by (simp add: t0 maxDuration_def)
  note ago = staleness_rules [where sys = samplePlatform and now = "- (2 ^ 64)"
      and wt = sampleOld, THEN conjunct2, THEN conjunct2, THEN conjunct2, THEN conjunct2,
      THEN conjunct2, rule_format, OF conjI, OF nz go]
  have s2: "InactiveDays samplePlatform (- (2 ^ 64)) sampleOld = - 106751"
    using ago [THEN conjunct2, THEN conjunct2, THEN conjunct2, THEN conjunct2, THEN conjunct2]
    by (simp add: t0 minDuration_def)
  from g1 have g2: "inactiveDays_spec (1000 * nsPerDay - 1) sampleOld
       \<le> InactiveDays samplePlatform (1000 * nsPerDay - 1) sampleOld"
    and g3: "InactiveDays samplePlatform (1000 * nsPerDay - 1) sampleOld
       \<le> inactiveDays_spec (1000 * nsPerDay - 1) sampleOld + 1"
    by (rule conjunct1, rule conjunct2)
  show ?thesis
    by (intro conjI)
      (rule z, rule u1, rule u2, rule u3, rule nz, rule go, rule o1, rule sp, rule o2, rule o3,
        rule o4, rule o5, rule h1, rule b1, rule b2, rule g2, rule g3, rule s1, rule s2)
qed

subsection \<open>Tags\<close>

text \<open>
  C7, as the claim states it, fails for the tag string: \<open>BuildTags\<close> reads the clock
  through \<open>InactiveDays\<close>. The same record, with its last commit at the Unix epoch,
  yields no tag ten days later and the tag \<open>45d stale\<close> forty-five days later.
\<close>

theorem BuildTags_clock_counterexample:
  "BuildTags samplePlatform (10 * nsPerDay) sampleOld = []
   \<and> BuildTags samplePlatform (45 * nsPerDay) sampleOld = ''[45d stale]''
   \<and> BuildTags samplePlatform (10 * nsPerDay) sampleOld
       \<noteq> BuildTags samplePlatform (45 * nsPerDay) sampleOld"
proof -
  have f: "\<not> IsCurrent sampleOld" "IsClean sampleOld" "\<not> IsMerged sampleOld"
    "SyncText sampleOld = ''-''"
    by (simp_all add: sampleOld_def branchWt_def zeroWorktree_def IsClean_def SyncText_def)
  have r: "Render samplePlatform = (\<lambda>st s. s)" by (simp add: samplePlatform_def)
  have a: "BuildTags samplePlatform (10 * nsPerDay) sampleOld = []"
    by (simp add: BuildTags_def Let_def f sample_days)
  have b: "BuildTags samplePlatform (45 * nsPerDay) sampleOld = ''[45d stale]''"
    by (simp add: BuildTags_def Let_def f r sample_days sample_fmt)
  from a b show ?thesis by simp
qed

lemma BuildTags_same_days:
  assumes "InactiveDays sys now1 w = InactiveDays sys now2 w"
  shows "BuildTags sys now1 w = BuildTags sys now2 w"
  by (simp only: BuildTags_def assms)

lemma BuildTags_no_stale_tag:
  assumes "InactiveDays sys now w \<le> 30"
  shows "BuildTags sys now w =
     (let tags = [];
          tags = (if IsCurrent w then tags @ [Render sys currentStyle ''current''] else tags);
          tags = (if \<not> IsClean w then tags @ [Render sys dirtyStyle (StatusText w)] else tags);
          tags = (if IsMerged w then tags @ [Render sys mergedStyle ''merged''] else tags);
          sync = SyncText w;
          tags = (if sync \<noteq> ''-'' then tags @ [Render sys dimStyle sync] else tags)
      in if length tags = 0 then []
         else Render sys dimStyle ''['' @ Join tags (Render sys dimStyle '', '')
              @ Render sys dimStyle '']'')"
proof -
  from assms have "\<not> 30 < InactiveDays sys now w" by simp
  then show ?thesis by (simp only: BuildTags_def Let_def if_False)
qed

text \<open>
  C7, amended. On equal records \<open>StatusText\<close> and \<open>SyncText\<close> return equal texts.
  Two evaluations of \<open>BuildTags\<close> on equal records, at any two clock readings,
  return equal strings whenever the inactive days of the two evaluations are equal, or
  both are at most 30, or the last commit time is unset.
\<close>

theorem BuildTags_two_runs:
  "w1 = w2 \<longrightarrow>
     StatusText w1 = StatusText w2 \<and> SyncText w1 = SyncText w2
     \<and> (InactiveDays sys now1 w1 = InactiveDays sys now2 w2
          \<or> (InactiveDays sys now1 w1 \<le> 30 \<and> InactiveDays sys now2 w2 \<le> 30)
          \<or> IsZero (LastCommit w1)
        \<longrightarrow> BuildTags sys now1 w1 = BuildTags sys now2 w2)"
proof (intro impI conjI)
  assume "w1 = w2"
  then show "StatusText w1 = StatusText w2" and "SyncText w1 = SyncText w2" by simp_all
next
  assume eq: "w1 = w2"
  assume c: "InactiveDays sys now1 w1 = InactiveDays sys now2 w2
          \<or> (InactiveDays sys now1 w1 \<le> 30 \<and> InactiveDays sys now2 w2 \<le> 30)
          \<or> IsZero (LastCommit w1)"
  then consider (same) "InactiveDays sys now1 w1 = InactiveDays sys now2 w1"
    | (fresh) "InactiveDays sys now1 w1 \<le> 30" "InactiveDays sys now2 w1 \<le> 30"
    | (unset) "IsZero (LastCommit w1)"
    using eq by blast
  then have "BuildTags sys now1 w1 = BuildTags sys now2 w1"
  proof cases
    case same
    then show ?thesis by (rule BuildTags_same_days)
  next
    case fresh
    then show ?thesis by (simp only: BuildTags_no_stale_tag)
  next
    case unset
    then have "InactiveDays sys now1 w1 = InactiveDays sys now2 w1"
      by (simp add: InactiveDays_def)
    then show ?thesis by (rule BuildTags_same_days)
  qed
  with eq show "BuildTags sys now1 w1 = BuildTags sys now2 w2" by simp
qed

theorem BuildTags_two_runs_witness:
  "BuildTags samplePlatform (10 * nsPerDay) sampleOld
     = BuildTags samplePlatform (30 * nsPerDay + nsPerDay div 2) sampleOld
   \<and> BuildTags samplePlatform 0 sampleMain = BuildTags samplePlatform (45 * nsPerDay) sampleMain
   \<and> BuildTags samplePlatform 0 sampleMain = ''[current]''"
proof -
  have 1: "BuildTags samplePlatform (10 * nsPerDay) sampleOld
     = BuildTags samplePlatform (30 * nsPerDay + nsPerDay div 2) sampleOld"
    using BuildTags_two_runs [of sampleOld sampleOld samplePlatform "10 * nsPerDay"
        "30 * nsPerDay + nsPerDay div 2"]
    by (simp add: sample_days)
  have z: "IsZero (LastCommit sampleMain)"
    by (simp add: sampleMain_def zeroWorktree_def IsZero_def)
  have 2: "BuildTags samplePlatform 0 sampleMain = BuildTags samplePlatform (45 * nsPerDay) sampleMain"
    using BuildTags_two_runs [of sampleMain sampleMain samplePlatform 0 "45 * nsPerDay"] z
    by simp
  have d: "InactiveDays samplePlatform 0 sampleMain = 0"
    using z by (simp add: InactiveDays_def)
  have f: "IsClean sampleMain" "SyncText sampleMain = ''-''"
    by (simp_all add: IsClean_def SyncText_def sampleMain_def zeroWorktree_def)
  have r: "Render samplePlatform = (\<lambda>st s. s)" by (simp add: samplePlatform_def)
  have 3: "BuildTags samplePlatform 0 sampleMain = ''[current]''"
    by (simp add: BuildTags_def Let_def d f r)
  from 1 2 3 show ?thesis by simp
qed

section \<open>The branch resolver\<close>

lemma exactLoop_find:
  "exactLoop sys query wts = find (\<lambda>wt. EqualFold sys (BranchShort wt) query) wts"
  by (induction wts) auto

lemma prefixLoop_filter:
  "prefixLoop sys ql wts acc = acc @ filter (\<lambda>wt. prefix ql (ToLower sys (BranchShort wt))) wts"
  by (induction wts arbitrary: acc) (auto simp: HasPrefix_def)

lemma substringLoop_filter:
  "substringLoop sys ql wts acc = acc @ filter (\<lambda>wt. sublist ql (ToLower sys (BranchShort wt))) wts"
  by (induction wts arbitrary: acc) (auto simp: Contains_def)

lemma find_first:
  "(\<forall>x\<in>set pre. \<not> P x) \<Longrightarrow> P y \<Longrightarrow> find P (pre @ y # post) = Some y"
  by (induction pre) auto

text \<open>
  C1. \<open>matchWorktrees\<close> works in three tiers over the short branch names. Tier 1
  compares with \<open>strings.EqualFold\<close>; tiers 2 and 3 compare the lowered name with the
  lowered query. If some candidate's name equals the query, the result is the single
  candidate that is first in the list among those (whatever the lower tiers would
  match); otherwise, if some lowered name starts with the lowered query, the result is
  all such candidates in list order; otherwise it is all candidates whose lowered name
  contains the lowered query, which is the empty list when there is none.
\<close>

theorem matchWorktrees_tiers:
  "(worktrees = pre @ wt # post \<and> EqualFold sys (BranchShort wt) query
      \<and> (\<forall>x\<in>set pre. \<not> EqualFold sys (BranchShort x) query)
     \<longrightarrow> matchWorktrees sys worktrees query = [wt])
   \<and> ((\<exists>x\<in>set worktrees. EqualFold sys (BranchShort x) query)
     \<longrightarrow> (\<exists>x\<in>set worktrees. EqualFold sys (BranchShort x) query
            \<and> matchWorktrees sys worktrees query = [x]))
   \<and> ((\<forall>x\<in>set worktrees. \<not> EqualFold sys (BranchShort x) query)
      \<and> (\<exists>x\<in>set worktrees. prefix (ToLower sys query) (ToLower sys (BranchShort x)))
     \<longrightarrow> matchWorktrees sys worktrees query
         = filter (\<lambda>x. prefix (ToLower sys query) (ToLower sys (BranchShort x))) worktrees)
   \<and> ((\<forall>x\<in>set worktrees. \<not> EqualFold sys (BranchShort x) query)
      \<and> (\<forall>x\<in>set worktrees. \<not> prefix (ToLower sys query) (ToLower sys (BranchShort x)))
     \<longrightarrow> matchWorktrees sys worktrees query
         = filter (\<lambda>x. sublist (ToLower sys query) (ToLower sys (BranchShort x))) worktrees)
   \<and> ((\<forall>x\<in>set worktrees. \<not> EqualFold sys (BranchShort x) query)
      \<and> (\<forall>x\<in>set worktrees. \<not> prefix (ToLower sys query) (ToLower sys (BranchShort x)))
      \<and> (\<forall>x\<in>set worktrees. \<not> sublist (ToLower sys query) (ToLower sys (BranchShort x)))
     \<longrightarrow> matchWorktrees sys worktrees query = [])"
proof (intro conjI impI)
  assume "worktrees = pre @ wt # post \<and> EqualFold sys (BranchShort wt) query
      \<and> (\<forall>x\<in>set pre. \<not> EqualFold sys (BranchShort x) query)"
  then show "matchWorktrees sys worktrees query = [wt]"
    by (simp add: matchWorktrees_def exactLoop_find find_first)
next
  assume "\<exists>x\<in>set worktrees. EqualFold sys (BranchShort x) query"
  then obtain y where y: "find (\<lambda>wt. EqualFold sys (BranchShort wt) query) worktrees = Some y"
    by (cases "find (\<lambda>wt. EqualFold sys (BranchShort wt) query) worktrees")
       (auto simp: find_None_iff)
  then have "y \<in> set worktrees" "EqualFold sys (BranchShort y) query"
    by (auto simp: find_Some_iff)
  with y show "\<exists>x\<in>set worktrees. EqualFold sys (BranchShort x) query
            \<and> matchWorktrees sys worktrees query = [x]"
    by (auto simp: matchWorktrees_def exactLoop_find)
next
  assume a: "(\<forall>x\<in>set worktrees. \<not> EqualFold sys (BranchShort x) query)
      \<and> (\<exists>x\<in>set worktrees. prefix (ToLower sys query) (ToLower sys (BranchShort x)))"
  then have n: "find (\<lambda>wt. EqualFold sys (BranchShort wt) query) worktrees = None"
    by (simp add: find_None_iff)
  from a have "filter (\<lambda>x. prefix (ToLower sys query) (ToLower sys (BranchShort x))) worktrees \<noteq> []"
    by (simp add: filter_empty_conv)
  with n show "matchWorktrees sys worktrees query
         = filter (\<lambda>x. prefix (ToLower sys query) (ToLower sys (BranchShort x))) worktrees"
    by (simp add: matchWorktrees_def exactLoop_find prefixLoop_filter)
next
  assume a: "(\<forall>x\<in>set worktrees. \<not> EqualFold sys (BranchShort x) query)
      \<and> (\<forall>x\<in>set worktrees. \<not> prefix (ToLower sys query) (ToLower sys (BranchShort x)))"
  then have n: "find (\<lambda>wt. EqualFold sys (BranchShort wt) query) worktrees = None"
    by (simp add: find_None_iff)
  from a have "filter (\<lambda>x. prefix (ToLower sys query) (ToLower sys (BranchShort x))) worktrees = []"
    by (simp add: filter_empty_conv)
  with n show "matchWorktrees sys worktrees query
         = filter (\<lambda>x. sublist (ToLower sys query) (ToLower sys (BranchShort x))) worktrees"
    by (simp add: matchWorktrees_def exactLoop_find prefixLoop_filter substringLoop_filter)
next
  assume a: "(\<forall>x\<in>set worktrees. \<not> EqualFold sys (BranchShort x) query)
      \<and> (\<forall>x\<in>set worktrees. \<not> prefix (ToLower sys query) (ToLower sys (BranchShort x)))
      \<and> (\<forall>x\<in>set worktrees. \<not> sublist (ToLower sys query) (ToLower sys (BranchShort x)))"
  then have n: "find (\<lambda>wt. EqualFold sys (BranchShort wt) query) worktrees = None"
    by (simp add: find_None_iff)
  from a have "filter (\<lambda>x. prefix (ToLower sys query) (ToLower sys (BranchShort x))) worktrees = []"
    "filter (\<lambda>x. sublist (ToLower sys query) (ToLower sys (BranchShort x))) worktrees = []"
    by (simp_all add: filter_empty_conv)
  with n show "matchWorktrees sys worktrees query = []"
    by (simp add: matchWorktrees_def exactLoop_find prefixLoop_filter substringLoop_filter)
qed


lemma BranchShort_branchWt: "BranchShort (branchWt name) = name"
  by (simp add: BranchShort_def branchWt_def TrimPrefix_def HasPrefix_def zeroWorktree_def)

lemma sample_fold [simp]:
  "EqualFold samplePlatform a b = (asciiLower a = asciiLower b)"
  "ToLower samplePlatform = asciiLower"
  by (simp_all add: samplePlatform_def)

lemma lower_names [simp]:
  "asciiLower ''main'' = ''main''"
  "asciiLower ''MAIN'' = ''main''"
  "asciiLower ''feature-auth'' = ''feature-auth''"
  "asciiLower ''feature-api'' = ''feature-api''"
  "asciiLower ''hotfix-123'' = ''hotfix-123''"
  "asciiLower ''feature'' = ''feature''"
  "asciiLower ''auth'' = ''auth''"
  "asciiLower ''zzz'' = ''zzz''"
  "asciiLower ''Feature'' = ''feature''"
  by (simp_all add: asciiLower_def)

theorem matchWorktrees_tiers_witness:
  "matchWorktrees samplePlatform
     (map branchWt [''main'', ''feature-auth'', ''feature-api'', ''hotfix-123'']) ''MAIN''
     = [branchWt ''main'']
   \<and> matchWorktrees samplePlatform
     (map branchWt [''main'', ''feature-auth'', ''feature-api'', ''hotfix-123'']) ''feature''
     = [branchWt ''feature-auth'', branchWt ''feature-api'']
   \<and> matchWorktrees samplePlatform
     (map branchWt [''main'', ''feature-auth'', ''feature-api'', ''hotfix-123'']) ''auth''
     = [branchWt ''feature-auth'']
   \<and> matchWorktrees samplePlatform
     (map branchWt [''main'', ''feature-auth'', ''feature-api'', ''hotfix-123'']) ''zzz'' = []
   \<and> matchWorktrees samplePlatform (map branchWt [''feature-auth'', ''feature'']) ''Feature''
     = [branchWt ''feature'']"
proof -
  let ?ws = "map branchWt [''main'', ''feature-auth'', ''feature-api'', ''hotfix-123'']"
  have 1: "matchWorktrees samplePlatform ?ws ''MAIN'' = [branchWt ''main'']"
    using matchWorktrees_tiers [of ?ws "[]" "branchWt ''main''"
      "map branchWt [''feature-auth'', ''feature-api'', ''hotfix-123'']" samplePlatform "''MAIN''"]
    by (simp add: BranchShort_branchWt)
  have 2: "matchWorktrees samplePlatform ?ws ''feature''
      = [branchWt ''feature-auth'', branchWt ''feature-api'']"
    using matchWorktrees_tiers [of ?ws "[]" "branchWt ''main''" "[]" samplePlatform "''feature''"]
    by (simp add: BranchShort_branchWt)
  have 3: "matchWorktrees samplePlatform ?ws ''auth'' = [branchWt ''feature-auth'']"
    using matchWorktrees_tiers [of ?ws "[]" "branchWt ''main''" "[]" samplePlatform "''auth''"]
    by (simp add: BranchShort_branchWt sublist_Cons_right prefix_Cons)
  have 4: "matchWorktrees samplePlatform ?ws ''zzz'' = []"
    using matchWorktrees_tiers [of ?ws "[]" "branchWt ''main''" "[]" samplePlatform "''zzz''"]
    by (simp add: BranchShort_branchWt sublist_Cons_right prefix_Cons)
  have 5: "matchWorktrees samplePlatform (map branchWt [''feature-auth'', ''feature'']) ''Feature''
      = [branchWt ''feature'']"
    using matchWorktrees_tiers [of "map branchWt [''feature-auth'', ''feature'']"
      "[branchWt ''feature-auth'']" "branchWt ''feature''" "[]" samplePlatform "''Feature''"]
    by (simp add: BranchShort_branchWt)
  from 1 2 3 4 5 show ?thesis by (intro conjI)
qed

section \<open>Removing worktrees\<close>

subsection \<open>One removal\<close>

lemma removeOrForce_result:
  "snd (removeOrForce sys w dir p) =
     (case run sys w dir [''worktree'', ''remove'', p] of
        (w1, r1) \<Rightarrow>
          (case run sys w1 dir [''worktree'', ''remove'', ''--force'', p] of
             (w2, r2) \<Rightarrow> if isl r1 \<and> isl r2 then Some (projl r2) else None))"
  by (simp add: removeOrForce_def split: prod.splits sum.splits)

lemma lookupBranch_world:
  "fst (lookupBranch sys w dir p del) = (if del then fst (ListWorktrees sys w dir) else w)"
  by (simp add: lookupBranch_def split: prod.splits sum.splits)

lemma RemoveWorktree_result:
  "snd (RemoveWorktree sys w dir p del)
     = snd (removeOrForce sys (fst (lookupBranch sys w dir p del)) dir p)"
  by (simp add: RemoveWorktree_def Let_def split: prod.splits option.splits)

text \<open>
  C9. \<open>RemoveWorktree\<close> returns an error iff \<open>git worktree remove\<close> fails and the
  forced second attempt fails too, and the error is then the one of the forced attempt.
  The attempts run on the world the branch lookup leaves behind. Nothing else decides
  the result: neither a failed listing nor the outcome of \<open>git branch -d\<close>.
\<close>

theorem RemoveWorktree_fails_iff_removal_fails:
  "(let w0 = (if deleteBranch then fst (ListWorktrees sys w dir) else w);
        (w1, r1) = run sys w0 dir [''worktree'', ''remove'', wtPath];
        (w2, r2) = run sys w1 dir [''worktree'', ''remove'', ''--force'', wtPath]
    in snd (RemoveWorktree sys w dir wtPath deleteBranch)
         = (if isl r1 \<and> isl r2 then Some (projl r2) else None)
       \<and> (snd (RemoveWorktree sys w dir wtPath deleteBranch) \<noteq> None) = (isl r1 \<and> isl r2))"
  by (simp add: RemoveWorktree_result removeOrForce_result lookupBranch_world Let_def
      split: prod.splits)

text \<open>On the sample platform.\<close>

lemma sample_list:
  "ListWorktrees samplePlatform w ''/repo''
     = (Suc w, Inr [sampleMain\<lparr>Head := ''aaaa1111''\<rparr>,
                    (branchWt ''feature-a'')\<lparr>Head := ''bbbb2222''\<rparr>,
                    (branchWt ''locked'')\<lparr>Head := ''cccc3333''\<rparr>])"
  by (simp add: ListWorktrees_def run_def samplePlatform_def sampleExec_def Let_def
      asciiTrimSpace_def asciiSpace_def samplePorcelain_def parsePorcelain_def splitLines_def
      parseLine_def HasPrefix_def TrimPrefix_def markCurrent_def sampleMain_def branchWt_def
      zeroWorktree_def)


lemma sample_run:
  "run samplePlatform w ''/repo'' [''worktree'', ''remove'', ''/repo-feature-a''] = (Suc w, Inr [])"
  "run samplePlatform w ''/repo'' [''branch'', ''-d'', ''feature-a'']
     = (Suc w, Inl ''git branch -d feature-a: error: not found'')"
  "run samplePlatform w ''/repo'' [''worktree'', ''remove'', ''/repo-locked'']
     = (Suc w, Inl ''git worktree remove /repo-locked: fatal: locked'')"
  "run samplePlatform w ''/repo'' [''worktree'', ''remove'', ''--force'', ''/repo-locked'']
     = (Suc w, Inl ''git worktree remove --force /repo-locked: fatal: locked'')"
  "run samplePlatform w ''/repo'' [''worktree'', ''prune''] = (Suc w, Inr [])"
  by (simp_all add: run_def samplePlatform_def sampleExec_def Let_def asciiTrimSpace_def
      asciiSpace_def)




theorem RemoveWorktree_fails_iff_removal_fails_witness:
  "snd (RemoveWorktree samplePlatform 0 ''/repo'' ''/repo-feature-a'' True) = None
   \<and> snd (run samplePlatform 2 ''/repo'' [''branch'', ''-d'', ''feature-a''])
       = Inl ''git branch -d feature-a: error: not found''
   \<and> snd (RemoveWorktree samplePlatform 0 ''/repo'' ''/repo-locked'' False)
       = Some ''git worktree remove --force /repo-locked: fatal: locked''"
  using RemoveWorktree_fails_iff_removal_fails
      [of True samplePlatform 0 "''/repo''" "''/repo-feature-a''"]
    RemoveWorktree_fails_iff_removal_fails
      [of False samplePlatform 0 "''/repo''" "''/repo-locked''"]
  by (simp add: sample_list sample_run)

subsection \<open>The batch\<close>

lemma logged_fields [simp]:
  "exec_git (logged sys) (w, l) dir args =
     (case exec_git sys w dir args of (w', r) \<Rightarrow> ((w', l @ [(dir, args)]), r))"
  "getwd (logged sys) (w, l) = getwd sys w"
  "absPath (logged sys) (w, l) = absPath sys w"
  "pathSeparator (logged sys) = pathSeparator sys"
  "TrimSpace (logged sys) = TrimSpace sys"
  "scanLines (logged sys) = scanLines sys"
  by (simp_all add: logged_def)







lemma call_kinds [simp]:
  "isRemoveCall (dir, [''worktree'', ''remove'', p])"
  "\<not> isRemoveCall (dir, [''worktree'', ''remove'', ''--force'', p])"
  "\<not> isRemoveCall (dir, [''worktree'', ''list'', ''--porcelain''])"
  "\<not> isRemoveCall (dir, [''branch'', ''-d'', b])"
  "\<not> isRemoveCall (dir, [''worktree'', ''prune''])"
  "\<not> isPruneCall (dir, [''worktree'', ''remove'', p])"
  "\<not> isPruneCall (dir, [''worktree'', ''remove'', ''--force'', p])"
  "\<not> isPruneCall (dir, [''worktree'', ''list'', ''--porcelain''])"
  "\<not> isPruneCall (dir, [''branch'', ''-d'', b])"
  "isPruneCall (dir, [''worktree'', ''prune''])"
  by (simp_all add: isRemoveCall_def isPruneCall_def)















section \<open>The multi-select session\<close>

subsection \<open>What each key does in the list\<close>

lemma selectedCount_filter: "selectedCount m = int (length (filter checked (items m)))"
proof -
  have "foldl (\<lambda>count it. if checked it then count + 1 else count) k xs
        = k + int (length (filter checked xs))" for k :: int and xs :: "item list"
    by (induction xs arbitrary: k) auto
  then show ?thesis by (simp add: selectedCount_def)
qed

lemma filter_checked_deselect: "filter checked (map (\<lambda>it. it\<lparr>checked := False\<rparr>) xs) = []"
  by (induction xs) auto

lemma updateList_a:
  "updateList m ''a'' = Inr (m\<lparr>items :=
               map (\<lambda>it. if \<not> IsCurrent (worktree it) \<and> IsMerged (worktree it)
                          then it\<lparr>checked := True\<rparr> else it) (items m)\<rparr>, NoCmd)"
  by (simp add: updateList_def)

lemma updateList_n:
  "updateList m ''n'' = Inr (m\<lparr>items := map (\<lambda>it. it\<lparr>checked := False\<rparr>) (items m)\<rparr>, NoCmd)"
  by (simp add: updateList_def)

lemma executeRemoval_frame:
  "executeRemoval sys w m = (w', m', c) \<Longrightarrow>
     items m' = items m \<and> cursor m' = cursor m \<and> confirmCursor m' = confirmCursor m
     \<and> mode m' = modeDone \<and> c = NoCmd"
  by (auto simp: executeRemoval_def split: prod.splits)


lemma updateList_d:
  "updateList m ''d'' =
     (if selectedCount m > 0 then Inr (m\<lparr>mode := modeConfirm, confirmCursor := 0\<rparr>, NoCmd)
      else Inr (m, NoCmd))"
  "updateList m ''enter'' =
     (if selectedCount m > 0 then Inr (m\<lparr>mode := modeConfirm, confirmCursor := 0\<rparr>, NoCmd)
      else Inr (m, NoCmd))"
  by (simp_all add: updateList_def)

lemma map_checked_deselect:
  "map checked (map (\<lambda>it. it\<lparr>checked := False\<rparr>) xs) = replicate (length xs) False"
  by (induction xs) auto

lemma map_worktree_deselect:
  "map worktree (map (\<lambda>it. it\<lparr>checked := False\<rparr>) xs) = map worktree xs"
  by (induction xs) auto

lemma map_worktree_select:
  "map worktree (map (\<lambda>it. if \<not> IsCurrent (worktree it) \<and> IsMerged (worktree it)
                then it\<lparr>checked := True\<rparr> else it) xs) = map worktree xs"
  by (induction xs) auto

lemma updateConfirm_enter:
  "updateConfirm sys w m ''enter'' =
     (if confirmCursor m = 1 then executeRemoval sys w m else (w, m\<lparr>mode := modeList\<rparr>, NoCmd))"
  by (simp add: updateConfirm_def)

lemma updateConfirm_y:
  "updateConfirm sys w m ''y'' = executeRemoval sys w (m\<lparr>confirmCursor := 1\<rparr>)"
  by (simp add: updateConfirm_def)

lemma currentUnchecked_toggle:
  assumes "currentUnchecked xs" and "i < length xs" and "\<not> IsCurrent (worktree (xs ! i))"
  shows "currentUnchecked (xs[i := (xs ! i)\<lparr>checked := \<not> checked (xs ! i)\<rparr>])"
  using assms unfolding currentUnchecked_def
  by (auto dest!: set_update_subset_insert [THEN subsetD])

lemma currentUnchecked_select:
  assumes "currentUnchecked xs"
  shows "currentUnchecked (map (\<lambda>it. if \<not> IsCurrent (worktree it) \<and> IsMerged (worktree it)
                          then it\<lparr>checked := True\<rparr> else it) xs)"
  using assms unfolding currentUnchecked_def by auto

lemma currentUnchecked_deselect:
  "currentUnchecked (map (\<lambda>it. it\<lparr>checked := False\<rparr>) xs)"
  unfolding currentUnchecked_def by auto

lemma updateList_quit:
  "key = ''q'' \<or> key = ''ctrl+c'' \<or> key = ''esc'' \<Longrightarrow> updateList m key = Inr (m, Quit)"
  by (simp add: updateList_def)

lemma updateList_up:
  "key = ''up'' \<or> key = ''k'' \<Longrightarrow>
     updateList m key = Inr (if cursor m > 0 then m\<lparr>cursor := cursor m - 1\<rparr> else m, NoCmd)"
  by (elim disjE) (simp_all add: updateList_def)

lemma updateList_down:
  "key = ''down'' \<or> key = ''j'' \<Longrightarrow>
     updateList m key =
       Inr (if cursor m < int (length (items m)) - 1 then m\<lparr>cursor := cursor m + 1\<rparr> else m, NoCmd)"
  by (elim disjE) (simp_all add: updateList_def)

lemma updateList_toggle:
  "key = '' '' \<or> key = ''x'' \<Longrightarrow>
     updateList m key =
       (if 0 \<le> cursor m \<and> cursor m < int (length (items m)) then
          (if \<not> IsCurrent (worktree (items m ! nat (cursor m)))
           then Inr (m\<lparr>items := (items m)[nat (cursor m) :=
                  (items m ! nat (cursor m))\<lparr>checked := \<not> checked (items m ! nat (cursor m))\<rparr>]\<rparr>,
                  NoCmd)
           else Inr (m, NoCmd))
        else Inl IndexOutOfRange)"
  by (elim disjE) (simp_all add: updateList_def Let_def)

lemma updateList_other:
  assumes "key \<noteq> ''q'' \<and> key \<noteq> ''ctrl+c'' \<and> key \<noteq> ''esc'' \<and> key \<noteq> ''up'' \<and> key \<noteq> ''k''
     \<and> key \<noteq> ''down'' \<and> key \<noteq> ''j'' \<and> key \<noteq> '' '' \<and> key \<noteq> ''x'' \<and> key \<noteq> ''a''
     \<and> key \<noteq> ''n'' \<and> key \<noteq> ''d'' \<and> key \<noteq> ''enter''"
  shows "updateList m key = Inr (m, NoCmd)"
  using assms by (simp add: updateList_def)

lemma dispatch_cases:
  fixes q1 q2 q3 u1 u2 d1 d2 t1 t2 a n e1 e2 :: bool
  obtains "q1 \<or> q2 \<or> q3" | "u1 \<or> u2" | "d1 \<or> d2" | "t1 \<or> t2" | a | n | "e1 \<or> e2"
  | "\<not> q1 \<and> \<not> q2 \<and> \<not> q3 \<and> \<not> u1 \<and> \<not> u2 \<and> \<not> d1 \<and> \<not> d2 \<and> \<not> t1 \<and> \<not> t2 \<and> \<not> a \<and> \<not> n
     \<and> \<not> e1 \<and> \<not> e2"
  by blast

lemma key_cases:
  obtains (quit) "key = ''q'' \<or> key = ''ctrl+c'' \<or> key = ''esc''"
  | (up) "key = ''up'' \<or> key = ''k''"
  | (down) "key = ''down'' \<or> key = ''j''"
  | (toggle) "key = '' '' \<or> key = ''x''"
  | (selectMerged) "key = ''a''"
  | (deselectAll) "key = ''n''"
  | (delete) "key = ''d'' \<or> key = ''enter''"
  | (other) "key \<noteq> ''q'' \<and> key \<noteq> ''ctrl+c'' \<and> key \<noteq> ''esc'' \<and> key \<noteq> ''up'' \<and> key \<noteq> ''k''
     \<and> key \<noteq> ''down'' \<and> key \<noteq> ''j'' \<and> key \<noteq> '' '' \<and> key \<noteq> ''x'' \<and> key \<noteq> ''a''
     \<and> key \<noteq> ''n'' \<and> key \<noteq> ''d'' \<and> key \<noteq> ''enter''"
proof (rule dispatch_cases [where ?q1.0 = "key = ''q''" and ?q2.0 = "key = ''ctrl+c''"
      and ?q3.0 = "key = ''esc''" and ?u1.0 = "key = ''up''" and ?u2.0 = "key = ''k''"
      and ?d1.0 = "key = ''down''" and ?d2.0 = "key = ''j''" and ?t1.0 = "key = '' ''"
      and ?t2.0 = "key = ''x''" and a = "key = ''a''" and n = "key = ''n''"
      and ?e1.0 = "key = ''d''" and ?e2.0 = "key = ''enter''"])
  assume "key = ''q'' \<or> key = ''ctrl+c'' \<or> key = ''esc''"
  then show thesis by (rule quit)
next
  assume "key = ''up'' \<or> key = ''k''"
  then show thesis by (rule up)
next
  assume "key = ''down'' \<or> key = ''j''"
  then show thesis by (rule down)
next
  assume "key = '' '' \<or> key = ''x''"
  then show thesis by (rule toggle)
next
  assume "key = ''a''"
  then show thesis by (rule selectMerged)
next
  assume "key = ''n''"
  then show thesis by (rule deselectAll)
next
  assume "key = ''d'' \<or> key = ''enter''"
  then show thesis by (rule delete)
next
  assume "\<not> key = ''q'' \<and> \<not> key = ''ctrl+c'' \<and> \<not> key = ''esc'' \<and> \<not> key = ''up'' \<and> \<not> key = ''k''
     \<and> \<not> key = ''down'' \<and> \<not> key = ''j'' \<and> \<not> key = '' '' \<and> \<not> key = ''x'' \<and> \<not> key = ''a''
     \<and> \<not> key = ''n'' \<and> \<not> key = ''d'' \<and> \<not> key = ''enter''"
  then show thesis by (rule other)
qed

lemma updateList_currentUnchecked:
  assumes "currentUnchecked (items m)" and "updateList m key = Inr (m', c)"
  shows "currentUnchecked (items m')"
proof (cases key rule: key_cases)
  case quit
  with assms show ?thesis by (simp add: updateList_quit)
next
  case up
  with assms show ?thesis by (auto simp: updateList_up split: if_splits)
next
  case down
  with assms show ?thesis by (auto simp: updateList_down split: if_splits)
next
  case toggle
  with assms show ?thesis
    by (auto simp: updateList_toggle currentUnchecked_toggle split: if_splits)
next
  case selectMerged
  with assms show ?thesis by (auto simp: updateList_a currentUnchecked_select)
next
  case deselectAll
  with assms show ?thesis by (auto simp: updateList_n currentUnchecked_deselect)
next
  case delete
  with assms show ?thesis by (auto simp: updateList_d split: if_splits)
next
  case other
  with assms show ?thesis by (simp add: updateList_other)
qed

subsection \<open>The current worktree is never checked\<close>

lemma executeRemoval_items [simp]: "items (fst (snd (executeRemoval sys w m))) = items m"
  by (simp add: executeRemoval_def split: prod.splits)

lemma updateConfirm_items: "items (fst (snd (updateConfirm sys w m key))) = items m"
  by (simp add: updateConfirm_def)

lemma Update_currentUnchecked:
  assumes "currentUnchecked (items m)" and "Update sys w m message = Inr (w', m', c)"
  shows "currentUnchecked (items m')"
proof (cases message)
  case (WindowSizeMsg wd ht)
  with assms show ?thesis by (auto simp: Update_def)
next
  case (KeyMsg key)
  show ?thesis
  proof (cases "mode m")
    case modeList
    with assms KeyMsg obtain c' where "updateList m key = Inr (m', c')"
      by (auto simp: Update_def split: sum.splits)
    with assms(1) show ?thesis by (rule updateList_currentUnchecked)
  next
    case modeConfirm
    with assms KeyMsg have "updateConfirm sys w m key = (w', m', c)"
      by (simp add: Update_def)
    with updateConfirm_items [of sys w m key] assms(1) show ?thesis by simp
  next
    case modeDone
    with assms KeyMsg show ?thesis by (auto simp: Update_def updateDone_def)
  qed
next
  case OtherMsg
  with assms show ?thesis by (auto simp: Update_def)
qed

lemma steps_currentUnchecked:
  assumes "currentUnchecked (items m)" and "steps sys w m msgs = Inr (w', m')"
  shows "currentUnchecked (items m')"
  using assms
proof (induction msgs arbitrary: w m)
  case Nil
  then show ?case by simp
next
  case (Cons message rest)
  from Cons.prems(2) obtain w1 m1 c1 where u: "Update sys w m message = Inr (w1, m1, c1)"
    and r: "steps sys w1 m1 rest = Inr (w', m')"
    by (auto split: sum.splits)
  from Cons.prems(1) u have "currentUnchecked (items m1)" by (rule Update_currentUnchecked)
  from this r show ?case by (rule Cons.IH)
qed

lemma New_currentUnchecked: "currentUnchecked (items (New worktrees dir))"
  by (auto simp: New_def currentUnchecked_def)

text \<open>
  C2. Whatever messages the session receives after \<open>New\<close>, in every state it reaches
  (every run that does not panic) no item of a current worktree is checked. In the
  list, \<open>space\<close> or \<open>x\<close> on an item of a current worktree returns the model and the
  world unchanged, and \<open>a\<close> leaves every item of a current worktree as it was.
\<close>

theorem current_item_never_checked:
  "(steps sys w (New worktrees dir) msgs = Inr (w', m')
      \<longrightarrow> (\<forall>it\<in>set (items m'). IsCurrent (worktree it) \<longrightarrow> \<not> checked it))
   \<and> (mode m = modeList \<and> (key = '' '' \<or> key = ''x'')
       \<and> 0 \<le> cursor m \<and> cursor m < int (length (items m))
       \<and> IsCurrent (worktree (items m ! nat (cursor m)))
      \<longrightarrow> Update sys w m (KeyMsg key) = Inr (w, m, NoCmd))
   \<and> (mode m = modeList
      \<longrightarrow> (\<exists>m1. Update sys w m (KeyMsg ''a'') = Inr (w, m1, NoCmd)
            \<and> length (items m1) = length (items m)
            \<and> (\<forall>i<length (items m). IsCurrent (worktree (items m ! i))
                  \<longrightarrow> items m1 ! i = items m ! i)))"
proof (intro conjI impI)
  assume "steps sys w (New worktrees dir) msgs = Inr (w', m')"
  with New_currentUnchecked have "currentUnchecked (items m')"
    by (rule steps_currentUnchecked)
  then show "\<forall>it\<in>set (items m'). IsCurrent (worktree it) \<longrightarrow> \<not> checked it"
    by (simp add: currentUnchecked_def)
next
  assume "mode m = modeList \<and> (key = '' '' \<or> key = ''x'')
       \<and> 0 \<le> cursor m \<and> cursor m < int (length (items m))
       \<and> IsCurrent (worktree (items m ! nat (cursor m)))"
  then show "Update sys w m (KeyMsg key) = Inr (w, m, NoCmd)"
    by (simp add: Update_def updateList_toggle)
next
  assume "mode m = modeList"
  then show "\<exists>m1. Update sys w m (KeyMsg ''a'') = Inr (w, m1, NoCmd)
            \<and> length (items m1) = length (items m)
            \<and> (\<forall>i<length (items m). IsCurrent (worktree (items m ! i))
                  \<longrightarrow> items m1 ! i = items m ! i)"
    by (simp add: Update_def updateList_a)
qed


theorem current_item_never_checked_witness:
  "steps samplePlatform 0 (New [sampleMain, sampleFeature, sampleLocked] ''/repo'')
     [KeyMsg '' '', KeyMsg ''a'', KeyMsg ''down'', KeyMsg ''down'', KeyMsg '' '']
     = Inr (0, sampleChecked)
   \<and> IsCurrent (worktree (items sampleChecked ! 0))
   \<and> \<not> checked (items sampleChecked ! 0)
   \<and> Update samplePlatform 0 sampleList (KeyMsg ''x'') = Inr (0, sampleList, NoCmd)"
proof -
  have run: "steps samplePlatform 0 (New [sampleMain, sampleFeature, sampleLocked] ''/repo'')
     [KeyMsg '' '', KeyMsg ''a'', KeyMsg ''down'', KeyMsg ''down'', KeyMsg '' '']
     = Inr (0, sampleChecked)"
    by (simp add: New_def Update_def updateList_def sampleChecked_def sampleList_def)
  have cur: "IsCurrent (worktree (items sampleChecked ! 0))"
    by (simp add: sampleChecked_def sampleList_def New_def)
  have mem: "items sampleChecked ! 0 \<in> set (items sampleChecked)"
    by (simp add: sampleChecked_def sampleList_def New_def)
  have pre: "mode sampleList = modeList \<and> (''x'' = '' '' \<or> ''x'' = ''x'')
       \<and> 0 \<le> cursor sampleList \<and> cursor sampleList < int (length (items sampleList))
       \<and> IsCurrent (worktree (items sampleList ! nat (cursor sampleList)))"
    by (simp add: sampleList_def New_def)
  note inst = current_item_never_checked [where sys = samplePlatform and w = 0
      and worktrees = "[sampleMain, sampleFeature, sampleLocked]" and dir = "''/repo''"
      and msgs = "[KeyMsg '' '', KeyMsg ''a'', KeyMsg ''down'', KeyMsg ''down'', KeyMsg '' '']"
      and w' = 0 and m' = sampleChecked and m = sampleList and key = "''x''"]
  from inst run have "\<forall>it\<in>set (items sampleChecked). IsCurrent (worktree it) \<longrightarrow> \<not> checked it"
    by blast
  with mem cur have unch: "\<not> checked (items sampleChecked ! 0)" by blast
  from inst pre have "Update samplePlatform 0 sampleList (KeyMsg ''x'') = Inr (0, sampleList, NoCmd)"
    by blast
  with run cur unch show ?thesis by blast
qed

subsection \<open>Index accesses in the list\<close>

text \<open>
  With the cursor inside a non-empty list, no key of the list panics, and the cursor
  stays inside the list, whose length does not change.
\<close>

lemma updateList_cursor_in_range:
  assumes "0 \<le> cursor m" and "cursor m < int (length (items m))"
  shows "\<exists>m' c. updateList m key = Inr (m', c)
           \<and> 0 \<le> cursor m' \<and> cursor m' < int (length (items m'))
           \<and> length (items m') = length (items m)"
proof (cases key rule: key_cases)
  case quit
  with assms show ?thesis by (simp add: updateList_quit)
next
  case up
  with assms show ?thesis by (auto simp: updateList_up)
next
  case down
  with assms show ?thesis by (auto simp: updateList_down)
next
  case toggle
  with assms show ?thesis by (auto simp: updateList_toggle)
next
  case selectMerged
  with assms show ?thesis by (simp add: updateList_a)
next
  case deselectAll
  with assms show ?thesis by (simp add: updateList_n)
next
  case delete
  with assms show ?thesis by (auto simp: updateList_d)
next
  case other
  with assms show ?thesis by (simp add: updateList_other)
qed

text \<open>
  C8, at the empty list. \<open>New\<close> accepts an empty slice and leaves the cursor at 0,
  which is no index of it; \<open>space\<close> or \<open>x\<close> then evaluates \<open>m.items[m.cursor]\<close> and
  panics. The single-select session guards the same access by \<open>len(m.items) > 0\<close>, and
  \<open>enter\<close> on its empty list returns normally.
\<close>

theorem toggle_on_empty_list_panics:
  "cursor (New [] dir) = 0
   \<and> length (items (New [] dir)) = 0
   \<and> Update sys w (New [] dir) (KeyMsg '' '') = Inl IndexOutOfRange
   \<and> Update sys w (New [] dir) (KeyMsg ''x'') = Inl IndexOutOfRange
   \<and> selectorUpdate (NewSelector []) (KeyMsg ''enter'')
       = Inr ((NewSelector [])\<lparr>sel_done := True\<rparr>, Quit)"
  by (simp add: New_def Update_def updateList_def NewSelector_def selectorUpdate_def)

subsection \<open>Requesting and confirming the deletion\<close>


text \<open>
  C4. In the list, \<open>d\<close> or \<open>enter\<close> with no checked item returns the model and the
  world unchanged; with a checked item it moves to the confirmation with the choice
  reset to No (0). In the confirmation, \<open>enter\<close> on No returns to the list and leaves
  the world as it was, so nothing was removed; \<open>y\<close> sets the choice to Yes (1) and
  returns what one call of \<open>executeRemoval\<close> returns, whose mode is always
  \<open>modeDone\<close>.
\<close>

theorem deletion_request_and_confirmation:
  "(mode m = modeList \<and> (key = ''d'' \<or> key = ''enter'') \<and> filter checked (items m) = []
      \<longrightarrow> Update sys w m (KeyMsg key) = Inr (w, m, NoCmd))
   \<and> (mode m = modeList \<and> (key = ''d'' \<or> key = ''enter'') \<and> filter checked (items m) \<noteq> []
      \<longrightarrow> Update sys w m (KeyMsg key) = Inr (w, m\<lparr>mode := modeConfirm, confirmCursor := 0\<rparr>, NoCmd))
   \<and> (mode m = modeConfirm \<and> confirmCursor m = 0
      \<longrightarrow> Update sys w m (KeyMsg ''enter'') = Inr (w, m\<lparr>mode := modeList\<rparr>, NoCmd))
   \<and> (mode m = modeConfirm
      \<longrightarrow> Update sys w m (KeyMsg ''y'') = Inr (executeRemoval sys w (m\<lparr>confirmCursor := 1\<rparr>))
          \<and> mode (fst (snd (executeRemoval sys w (m\<lparr>confirmCursor := 1\<rparr>)))) = modeDone
          \<and> confirmCursor (fst (snd (executeRemoval sys w (m\<lparr>confirmCursor := 1\<rparr>)))) = 1)"
proof (intro conjI impI)
  assume "mode m = modeList \<and> (key = ''d'' \<or> key = ''enter'') \<and> filter checked (items m) = []"
  then show "Update sys w m (KeyMsg key) = Inr (w, m, NoCmd)"
    by (auto simp: Update_def updateList_d selectedCount_filter)
next
  assume "mode m = modeList \<and> (key = ''d'' \<or> key = ''enter'') \<and> filter checked (items m) \<noteq> []"
  then show "Update sys w m (KeyMsg key) = Inr (w, m\<lparr>mode := modeConfirm, confirmCursor := 0\<rparr>, NoCmd)"
    by (auto simp: Update_def updateList_d selectedCount_filter)
next
  assume "mode m = modeConfirm \<and> confirmCursor m = 0"
  then show "Update sys w m (KeyMsg ''enter'') = Inr (w, m\<lparr>mode := modeList\<rparr>, NoCmd)"
    by (simp add: Update_def updateConfirm_enter)
next
  assume c: "mode m = modeConfirm"
  then show "Update sys w m (KeyMsg ''y'') = Inr (executeRemoval sys w (m\<lparr>confirmCursor := 1\<rparr>))"
    by (simp add: Update_def updateConfirm_y)
  obtain w' m' c' where e: "executeRemoval sys w (m\<lparr>confirmCursor := 1\<rparr>) = (w', m', c')"
    by (cases "executeRemoval sys w (m\<lparr>confirmCursor := 1\<rparr>)") auto
  from executeRemoval_frame [OF e]
  show "mode (fst (snd (executeRemoval sys w (m\<lparr>confirmCursor := 1\<rparr>)))) = modeDone"
    and "confirmCursor (fst (snd (executeRemoval sys w (m\<lparr>confirmCursor := 1\<rparr>)))) = 1"
    by (simp_all add: e)
qed

theorem deletion_request_and_confirmation_witness:
  "Update samplePlatform 0 sampleList (KeyMsg ''d'') = Inr (0, sampleList, NoCmd)
   \<and> Update samplePlatform 0 sampleChecked (KeyMsg ''d'') = Inr (0, sampleConfirm, NoCmd)
   \<and> Update samplePlatform 0 sampleConfirm (KeyMsg ''enter'') = Inr (0, sampleChecked, NoCmd)
   \<and> Update samplePlatform 0 sampleConfirm (KeyMsg ''y'')
       = Inr (executeRemoval samplePlatform 0 (sampleConfirm\<lparr>confirmCursor := 1\<rparr>))
   \<and> mode (fst (snd (executeRemoval samplePlatform 0 (sampleConfirm\<lparr>confirmCursor := 1\<rparr>))))
       = modeDone"
  using deletion_request_and_confirmation [of sampleList "''d''" samplePlatform 0]
    deletion_request_and_confirmation [of sampleChecked "''d''" samplePlatform 0]
    deletion_request_and_confirmation [of sampleConfirm "''d''" samplePlatform 0]
  by (simp add: sampleList_def sampleChecked_def sampleConfirm_def New_def)

subsection \<open>Select merged, then deselect all\<close>


text \<open>
  C10. In the list, \<open>a\<close> followed by \<open>n\<close> never panics, leaves the world alone and
  ends in the list with every item unchecked and no worktree changed.
\<close>

theorem select_merged_then_deselect_all:
  assumes "mode m = modeList"
  shows "\<exists>m'. steps sys w m [KeyMsg ''a'', KeyMsg ''n''] = Inr (w, m')
          \<and> map checked (items m') = replicate (length (items m)) False
          \<and> map worktree (items m') = map worktree (items m)
          \<and> selectedCount m' = 0
          \<and> mode m' = modeList"
proof -
  let ?sel = "map (\<lambda>it. if \<not> IsCurrent (worktree it) \<and> IsMerged (worktree it)
                         then it\<lparr>checked := True\<rparr> else it) (items m)"
  let ?m' = "m\<lparr>items := map (\<lambda>it. it\<lparr>checked := False\<rparr>) ?sel\<rparr>"
  have run: "steps sys w m [KeyMsg ''a'', KeyMsg ''n''] = Inr (w, ?m')"
    using assms by (simp add: Update_def updateList_a updateList_n del: map_map)
  have chk: "map checked (items ?m') = replicate (length (items m)) False"
    by (simp add: map_checked_deselect del: map_map)
  have wts: "map worktree (items ?m') = map worktree (items m)"
    by (simp add: map_worktree_deselect map_worktree_select del: map_map)
  have cnt: "selectedCount ?m' = 0"
    by (simp add: selectedCount_filter filter_checked_deselect del: map_map)
  have md: "mode ?m' = modeList"
    using assms by simp
  from run chk wts cnt md show ?thesis by blast
qed

theorem select_merged_then_deselect_all_witness:
  "mode sampleChecked = modeList
   \<and> (\<exists>m'. steps samplePlatform 0 sampleChecked [KeyMsg ''a'', KeyMsg ''n''] = Inr (0, m')
          \<and> map checked (items m') = [False, False, False]
          \<and> selectedCount m' = 0)"
proof -
  have h: "mode sampleChecked = modeList"
    by (simp add: sampleChecked_def sampleList_def New_def)
  have l: "length (items sampleChecked) = 3"
    by (simp add: sampleChecked_def sampleList_def New_def)
  from select_merged_then_deselect_all [OF h, of samplePlatform 0] h l
  show ?thesis by (auto simp: numeral_3_eq_3)
qed

end
